theory Spec2Isabelle
  imports Main
begin

section \<open>The platform the site manager runs on\<close>

text \<open>
  \<^verbatim>\<open>main.go\<close> is a single Go file that keeps sites and themes as directories, persists a
  site's configuration as a TOML file, and drives two external programs (\<^verbatim>\<open>hugo\<close> and
  \<^verbatim>\<open>git\<close>). Everything it touches outside its own variables is written out here as data:
  the file system is a map from path strings to nodes, external programs are a function
  handed to every operation that runs one, the log and the list of started commands are
  fields of the world, and the \<^verbatim>\<open>*SiteConfig\<close> objects live in a heap indexed by
  addresses, because \<^verbatim>\<open>Create\<close> writes through the pointer its caller passed.
\<close>

subsection \<open>Errors\<close>

text \<open>
  Go's \<^verbatim>\<open>error\<close> values, by where they come from: the \<^verbatim>\<open>os\<close> package (operation, path,
  reason), a process that did not run to a zero exit status, and the TOML library.
\<close>

datatype error =
    PathError string string string
  | ExitError string
  | TomlError string

fun Error_string :: "error \<Rightarrow> string" where
  "Error_string (PathError op p reason) = op @ '' '' @ p @ '': '' @ reason"
| "Error_string (ExitError msg) = msg"
| "Error_string (TomlError msg) = msg"

subsection \<open>\<^verbatim>\<open>strings.Join\<close> and \<^verbatim>\<open>path/filepath\<close> on Unix\<close>

fun strings_Join :: "string list \<Rightarrow> string \<Rightarrow> string" where
  "strings_Join [] sep = []"
| "strings_Join [e] sep = e"
| "strings_Join (e # es) sep = e @ sep @ strings_Join es sep"

text \<open>The elements of a path: the pieces between separators, empty ones included.\<close>

fun elements :: "string \<Rightarrow> string list" where
  "elements [] = [[]]"
| "elements (c # cs) =
     (if c = CHR ''/'' then [] # elements cs
      else (case elements cs of
              [] \<Rightarrow> [[c]]
            | e # es \<Rightarrow> (c # e) # es))"

text \<open>
  \<^verbatim>\<open>filepath.Clean\<close> reads the path element by element and keeps a buffer of the
  elements written so far: an empty element and \<^verbatim>\<open>.\<close> are dropped; \<^verbatim>\<open>..\<close> removes the
  last written element when there is one that is not itself a leading \<^verbatim>\<open>..\<close>, is dropped
  at the root of a rooted path, and is written otherwise; any other element is written.
  The empty result is \<^verbatim>\<open>.\<close>.
\<close>

definition clean_element :: "bool \<Rightarrow> string list \<Rightarrow> string \<Rightarrow> string list" where
  "clean_element rooted out e =
     (if e = [] \<or> e = ''.'' then out
      else if e = ''..'' then
        (if out \<noteq> [] \<and> last out \<noteq> ''..'' then butlast out
         else if rooted then out
         else out @ [''..''])
      else out @ [e])"

definition Clean :: "string \<Rightarrow> string" where
  "Clean path =
     (if path = [] then ''.''
      else
        let rooted = (hd path = CHR ''/'');
            out = foldl (clean_element rooted) [] (elements path);
            body = strings_Join out ''/''
        in if rooted then CHR ''/'' # body
           else if body = [] then ''.''
           else body)"

text \<open>
  \<^verbatim>\<open>filepath.Join\<close>: leading empty elements are ignored, the rest is joined with the
  separator and cleaned; with nothing but empty elements the result is the empty string.
\<close>

fun Join :: "string list \<Rightarrow> string" where
  "Join [] = []"
| "Join (e # es) = (if e \<noteq> [] then Clean (strings_Join (e # es) ''/'') else Join es)"

text \<open>
  \<^verbatim>\<open>filepath.Dir\<close>: everything up to the last separator, cleaned. The program does not
  call it; the file system below uses it to find the directory an entry is made in.
\<close>

definition Dir_of :: "string \<Rightarrow> string" where
  "Dir_of path = Clean (rev (dropWhile (\<lambda>c. c \<noteq> CHR ''/'') (rev path)))"

declare Join.simps [simp del]

text \<open>
  What the buffer of \<^verbatim>\<open>Clean\<close> looks like at every moment, for reasoning about cleaned
  paths: its elements are proper names or \<^verbatim>\<open>..\<close>, every \<^verbatim>\<open>..\<close> stands before every
  name, and a rooted path has none. \<^verbatim>\<open>render\<close> is the last step of \<^verbatim>\<open>Clean\<close>, from the
  buffer to the result.
\<close>

fun dots_lead :: "string list \<Rightarrow> bool" where
  "dots_lead [] = True"
| "dots_lead (e # es) = (if e = ''..'' then dots_lead es else ''..'' \<notin> set es)"

definition clean_stack :: "bool \<Rightarrow> string list \<Rightarrow> bool" where
  "clean_stack rooted out =
     (list_all (\<lambda>e. e \<noteq> [] \<and> e \<noteq> ''.'' \<and> CHR ''/'' \<notin> set e) out
      \<and> dots_lead out \<and> (if rooted then ''..'' \<notin> set out else True))"

definition render :: "bool \<Rightarrow> string list \<Rightarrow> string" where
  "render rooted out =
     (if rooted then CHR ''/'' # strings_Join out ''/''
      else if strings_Join out ''/'' = [] then ''.'' else strings_Join out ''/'')"

text \<open>A name that is one proper element of a path.\<close>

definition plain_name :: "string \<Rightarrow> bool" where
  "plain_name t = (t \<noteq> [] \<and> t \<noteq> ''.'' \<and> t \<noteq> ''..'' \<and> CHR ''/'' \<notin> set t)"

subsection \<open>TOML documents\<close>

text \<open>
  The text layer of TOML belongs to the \<^verbatim>\<open>BurntSushi/toml\<close> library. A document is kept
  as what its text denotes: a table from keys to values. What the program itself decides,
  through the struct tags of \<^verbatim>\<open>SiteConfig\<close>, is which fields go into the table and under
  which keys.
\<close>

datatype toml_value = TomlString string | TomlInteger int | TomlBool bool

type_synonym toml_table = "(string \<times> toml_value) list"

subsection \<open>The file system\<close>

text \<open>
  A regular file holds either a TOML document or bytes that are not one. The flag of a
  node says whether the process may use it (list or change a directory, read or write a
  file); a node without it stands for \<^verbatim>\<open>permission denied\<close>. Paths are the strings
  the program passes to the operating system; all of them come out of \<^verbatim>\<open>filepath.Join\<close>.
\<close>

datatype contents = TomlDocument toml_table | OtherBytes string

datatype node = Directory bool | Regular bool contents

type_synonym filesystem = "string \<rightharpoonup> node"

text \<open>\<^verbatim>\<open>ioutil.ReadDir\<close>; the program only ever looks at the error.\<close>

definition ReadDir :: "filesystem \<Rightarrow> string \<Rightarrow> error option" where
  "ReadDir fs dirname =
     (case fs dirname of
        None \<Rightarrow> Some (PathError ''open'' dirname ''no such file or directory'')
      | Some (Regular _ _) \<Rightarrow> Some (PathError ''readdirent'' dirname ''not a directory'')
      | Some (Directory ok) \<Rightarrow>
          (if ok then None else Some (PathError ''open'' dirname ''permission denied'')))"

text \<open>
  \<^verbatim>\<open>ioutil.WriteFile\<close> creates or truncates the file. It needs a usable directory to
  make the entry in, and the name must not be a directory or a file the process may not
  write. A new file gets the owner-only mode of the call, so the process can read it back.
\<close>

definition WriteFile :: "filesystem \<Rightarrow> string \<Rightarrow> contents \<Rightarrow> error + filesystem" where
  "WriteFile fs filename data =
     (case fs (Dir_of filename) of
        Some (Directory True) \<Rightarrow>
          (case fs filename of
             None \<Rightarrow> Inr (fs(filename \<mapsto> Regular True data))
           | Some (Regular True _) \<Rightarrow> Inr (fs(filename \<mapsto> Regular True data))
           | Some (Regular False _) \<Rightarrow> Inl (PathError ''open'' filename ''permission denied'')
           | Some (Directory _) \<Rightarrow> Inl (PathError ''open'' filename ''is a directory''))
      | Some (Directory False) \<Rightarrow> Inl (PathError ''open'' filename ''permission denied'')
      | Some (Regular _ _) \<Rightarrow> Inl (PathError ''open'' filename ''not a directory'')
      | None \<Rightarrow> Inl (PathError ''open'' filename ''no such file or directory''))"

text \<open>
  \<^verbatim>\<open>os.Rename\<close> of a regular file: the file must exist, both directories must be
  usable, and the new name must not be a directory. The program ignores the result, so a
  failed rename is the unchanged file system. The only name the program renames is the
  file it has just written; moving a directory is left out.
\<close>

definition Rename :: "filesystem \<Rightarrow> string \<Rightarrow> string \<Rightarrow> filesystem" where
  "Rename fs oldpath newpath =
     (case fs oldpath of
        Some (Regular ok data) \<Rightarrow>
          (case (fs (Dir_of oldpath), fs (Dir_of newpath), fs newpath) of
             (Some (Directory True), Some (Directory True), None) \<Rightarrow>
               (fs(oldpath := None))(newpath \<mapsto> Regular ok data)
           | (Some (Directory True), Some (Directory True), Some (Regular _ _)) \<Rightarrow>
               (fs(oldpath := None))(newpath \<mapsto> Regular ok data)
           | _ \<Rightarrow> fs)
      | _ \<Rightarrow> fs)"

section \<open>The data model of \<^verbatim>\<open>main.go\<close>\<close>

text \<open>
  \<^verbatim>\<open>Theme\<close> is an empty struct: a theme carries nothing but its presence. The maps
  \<^verbatim>\<open>Themes\<close> and \<^verbatim>\<open>Sites\<close> of the two stores are set up by the constructors
  \<^verbatim>\<open>NewThemeStore\<close> and \<^verbatim>\<open>NewSiteStore\<close>; no method of the stores reads or writes them.
\<close>

datatype Theme = Theme_struct

record ThemeStore =
  Themes :: "string \<rightharpoonup> Theme"
  StorePath :: string

text \<open>
  A \<^verbatim>\<open>Site\<close> holds a pointer to its configuration: an address of the heap. The store's
  \<^verbatim>\<open>ThemeStore\<close> pointer is taken to be set, as \<^verbatim>\<open>NewSiteStore\<close> is given one.
\<close>

record Site =
  Config :: nat

record SiteStore =
  Sites :: "string \<rightharpoonup> Site"
  SitePath :: string
  ThemeStore :: ThemeStore

text \<open>
  \<^verbatim>\<open>SiteConfig\<close>, in the order of the struct. The first three fields carry the tag
  \<^verbatim>\<open>toml:"-"\<close>; the tag of each other field is its key in the persisted document.
\<close>

record SiteConfig =
  ID :: string
  ThemeURL :: string
  SitePath :: string
  ThemesDir :: string
  ContentDir :: string
  LayoutDir :: string
  PublishDir :: string
  BaseURL :: string
  LanguageCode :: string
  Title :: string
  Theme :: string

definition defaultSiteStorePath :: string where
  "defaultSiteStorePath = ''/tmp/sites''"

definition defaultThemeStorePath :: string where
  "defaultThemeStorePath = ''/tmp/themes''"

subsection \<open>Encoding and decoding a \<^verbatim>\<open>SiteConfig\<close>\<close>

text \<open>
  \<^verbatim>\<open>toml.NewEncoder(buf).Encode(site.Config)\<close>: one key per tagged field, in the order
  of the struct. A struct of strings always encodes; the error of the signature is kept
  because the program tests it.
\<close>

definition toml_Encode :: "SiteConfig \<Rightarrow> error + toml_table" where
  "toml_Encode c = Inr
     [(''themesDir'', TomlString (ThemesDir c)),
      (''contentDir'', TomlString (ContentDir c)),
      (''layoutDir'', TomlString (LayoutDir c)),
      (''publishDir'', TomlString (PublishDir c)),
      (''baseURL'', TomlString (BaseURL c)),
      (''languageCode'', TomlString (LanguageCode c)),
      (''title'', TomlString (Title c)),
      (''theme'', TomlString (Theme c))]"

text \<open>
  Decoding fills a string field from the key of its tag: a missing key leaves the zero
  value, a value that is not a string is an error. Keys are looked up as they are written
  in the tags (the library would also take a key that differs from the tag in case only).
\<close>

definition string_field :: "toml_table \<Rightarrow> string \<Rightarrow> error + string" where
  "string_field t k =
     (case map_of t k of
        None \<Rightarrow> Inr []
      | Some (TomlString v) \<Rightarrow> Inr v
      | Some _ \<Rightarrow> Inl (TomlError (''toml: incompatible types for key '' @ k)))"

text \<open>
  Decoding into \<^verbatim>\<open>var config SiteConfig\<close>: the three untagged fields stay empty,
  whatever the document holds.
\<close>

definition toml_Decode :: "toml_table \<Rightarrow> error + SiteConfig" where
  "toml_Decode t =
     (case string_field t ''themesDir'' of Inl e \<Rightarrow> Inl e | Inr themesDir \<Rightarrow>
      case string_field t ''contentDir'' of Inl e \<Rightarrow> Inl e | Inr contentDir \<Rightarrow>
      case string_field t ''layoutDir'' of Inl e \<Rightarrow> Inl e | Inr layoutDir \<Rightarrow>
      case string_field t ''publishDir'' of Inl e \<Rightarrow> Inl e | Inr publishDir \<Rightarrow>
      case string_field t ''baseURL'' of Inl e \<Rightarrow> Inl e | Inr baseURL \<Rightarrow>
      case string_field t ''languageCode'' of Inl e \<Rightarrow> Inl e | Inr languageCode \<Rightarrow>
      case string_field t ''title'' of Inl e \<Rightarrow> Inl e | Inr title \<Rightarrow>
      case string_field t ''theme'' of Inl e \<Rightarrow> Inl e | Inr theme \<Rightarrow>
        Inr \<lparr>ID = [], ThemeURL = [], SitePath = [],
             ThemesDir = themesDir, ContentDir = contentDir, LayoutDir = layoutDir,
             PublishDir = publishDir, BaseURL = baseURL, LanguageCode = languageCode,
             Title = title, Theme = theme\<rparr>)"

text \<open>\<^verbatim>\<open>toml.DecodeFile\<close>: read the file, parse it, decode the table.\<close>

definition toml_DecodeFile :: "filesystem \<Rightarrow> string \<Rightarrow> error + SiteConfig" where
  "toml_DecodeFile fs fpath =
     (case fs fpath of
        None \<Rightarrow> Inl (PathError ''open'' fpath ''no such file or directory'')
      | Some (Directory _) \<Rightarrow> Inl (PathError ''read'' fpath ''is a directory'')
      | Some (Regular ok data) \<Rightarrow>
          (if \<not> ok then Inl (PathError ''open'' fpath ''permission denied'')
           else (case data of
                   OtherBytes _ \<Rightarrow> Inl (TomlError ''toml: syntax error'')
                 | TomlDocument t \<Rightarrow> toml_Decode t)))"

section \<open>The world: files, objects, log, processes\<close>

datatype level = InfoLevel | WarnLevel | ErrorLevel

text \<open>
  \<^verbatim>\<open>exec.Cmd\<close>: the program, its arguments (the program's name first, as
  \<^verbatim>\<open>exec.Command\<close> builds them) and the working directory, where the empty string
  means the directory of the calling process.
\<close>

record Cmd =
  Path :: string
  Args :: "string list"
  Dir :: string

definition exec_Command :: "string \<Rightarrow> string list \<Rightarrow> Cmd" where
  "exec_Command name arg = \<lparr>Path = name, Args = name # arg, Dir = []\<rparr>"

text \<open>What a finished process leaves: its two captured streams and the error of \<^verbatim>\<open>Run\<close>.\<close>

record process =
  Stdout :: string
  Stderr :: string
  Err :: "error option"

text \<open>
  The external programs are not part of the program: they are a function from the command
  and the file system it finds to what the process leaves and the file system after it.
\<close>

type_synonym system = "Cmd \<Rightarrow> filesystem \<Rightarrow> process \<times> filesystem"

record world =
  files :: filesystem
  heap :: "nat \<rightharpoonup> SiteConfig"
  brk :: nat
  log :: "(level \<times> string) list"
  procs :: "Cmd list"

definition Log :: "level \<Rightarrow> string \<Rightarrow> world \<Rightarrow> world" where
  "Log lvl msg w = w\<lparr>log := log w @ [(lvl, msg)]\<rparr>"

definition quoted :: "string \<Rightarrow> string" where
  "quoted s = [CHR 0x27] @ s @ [CHR 0x27]"

text \<open>\<^verbatim>\<open>cmd.Run()\<close>: the process runs on the files of the world and is recorded.\<close>

definition cmd_Run :: "system \<Rightarrow> Cmd \<Rightarrow> world \<Rightarrow> process \<times> world" where
  "cmd_Run X cmd w =
     (case X cmd (files w) of
        (p, fs) \<Rightarrow> (p, w\<lparr>files := fs, procs := procs w @ [cmd]\<rparr>))"

text \<open>A new object at the next free address.\<close>

definition new :: "SiteConfig \<Rightarrow> world \<Rightarrow> nat \<times> world" where
  "new c w = (brk w, w\<lparr>heap := (heap w)(brk w \<mapsto> c), brk := Suc (brk w)\<rparr>)"

section \<open>The theme store\<close>

text \<open>
  \<^verbatim>\<open>ThemeStore.Find\<close> (lines 206-214): the theme is there when its directory can be
  listed; any error of \<^verbatim>\<open>ReadDir\<close> is \<^verbatim>\<open>nil\<close>.
\<close>

definition ThemeStore_Find :: "ThemeStore \<Rightarrow> string \<Rightarrow> world \<Rightarrow> Theme option" where
  "ThemeStore_Find s name w =
     (let themePath = Join [StorePath s, name] in
      case ReadDir (files w) themePath of
        Some err \<Rightarrow> None
      | None \<Rightarrow> Some Theme_struct)"

text \<open>
  \<^verbatim>\<open>ThemeStore.Fetch\<close> (lines 217-231): \<^verbatim>\<open>git clone url themePath\<close>; on an error the
  captured error stream is logged and the error of \<^verbatim>\<open>Run\<close> is returned.
\<close>

definition ThemeStore_Fetch ::
  "system \<Rightarrow> ThemeStore \<Rightarrow> string \<Rightarrow> string \<Rightarrow> world \<Rightarrow> (Theme option \<times> error option) \<times> world" where
  "ThemeStore_Fetch X s name url w =
     (let themePath = Join [StorePath s, name];
          cmd = exec_Command ''git'' [''clone'', url, themePath]
      in case cmd_Run X cmd w of
           (p, w1) \<Rightarrow>
             (case Err p of
                Some err \<Rightarrow> ((None, Some err), Log ErrorLevel (Stderr p) w1)
              | None \<Rightarrow> ((Some Theme_struct, None), w1)))"

section \<open>The site store\<close>

text \<open>
  A call either returns or panics; \<^verbatim>\<open>Create\<close> panics when it reads the theme name
  through a pointer that points to no configuration.
\<close>

datatype 'a outcome = Returns 'a | Panics

text \<open>
  The theme resolution of \<^verbatim>\<open>Create\<close> (lines 87-102). \<^verbatim>\<open>Some r\<close> is \<^verbatim>\<open>return r\<close>,
  \<^verbatim>\<open>None\<close> falls through to the rest of the function. The named result \<^verbatim>\<open>err\<close> has
  not been assigned when the branch of the empty URL returns it.
\<close>

definition Create_theme ::
  "system \<Rightarrow> SiteStore \<Rightarrow> SiteConfig \<Rightarrow> world \<Rightarrow> (Site option \<times> error option) option \<times> world" where
  "Create_theme X s c w =
     (case ThemeStore_Find (ThemeStore s) (Theme c) w of
        Some theme \<Rightarrow> (None, w)
      | None \<Rightarrow>
          (let w1 = Log ErrorLevel (''Theme '' @ quoted (Theme c) @ '' doesn't exist!'') w in
           if ThemeURL c = [] then
             (Some (None, None), Log ErrorLevel ''No theme URL specified, aborting!'' w1)
           else
             (case ThemeStore_Fetch X (ThemeStore s) (Theme c) (ThemeURL c)
                     (Log InfoLevel (''Fetching theme '' @ quoted (Theme c)) w1) of
                ((theme, Some err), w2) \<Rightarrow>
                  (Some (None, Some err),
                   Log InfoLevel (''Couldn't fetch theme: '' @ Error_string err) w2)
              | ((theme, None), w2) \<Rightarrow> (None, Log InfoLevel ''Done fetching theme.'' w2))))"

text \<open>The layout computation of \<^verbatim>\<open>Create\<close> (lines 104-111): five assignments to the
  fields of \<^verbatim>\<open>config\<close>.\<close>

definition Create_layout :: "SiteStore \<Rightarrow> SiteConfig \<Rightarrow> SiteConfig" where
  "Create_layout s c =
     (let sitePath = Join [SiteStore.SitePath s, ID c] in
      c\<lparr>ThemesDir := StorePath (ThemeStore s),
        ContentDir := Join [sitePath, ''content''],
        LayoutDir := Join [sitePath, ''layout''],
        PublishDir := Join [sitePath, ''public''],
        SitePath := sitePath\<rparr>)"

text \<open>The command of line 127; lines 128-131 give it its two buffers and no working
  directory.\<close>

definition scaffold_cmd :: "string \<Rightarrow> string \<Rightarrow> Cmd" where
  "scaffold_cmd configPath ident = exec_Command ''hugo'' [''new'', ''--config'', configPath, ident]"

text \<open>
  The rest of \<^verbatim>\<open>Create\<close> (lines 104-145), for the configuration \<^verbatim>\<open>c\<close> found at the
  address \<^verbatim>\<open>config\<close>: the layout is written through the pointer, the configuration is
  encoded and written to \<^verbatim>\<open>ID.toml\<close> under the store's path, \<^verbatim>\<open>hugo new\<close> runs, and
  the file is renamed to \<^verbatim>\<open>config.toml\<close> in the site's directory, unchecked.
\<close>

definition Create_site ::
  "system \<Rightarrow> SiteStore \<Rightarrow> nat \<Rightarrow> SiteConfig \<Rightarrow> world \<Rightarrow> (Site option \<times> error option) \<times> world" where
  "Create_site X s config c w =
     (let site = \<lparr>Config = config\<rparr>;
          c1 = Create_layout s c;
          w1 = w\<lparr>heap := (heap w)(config \<mapsto> c1)\<rparr>
      in case toml_Encode c1 of
           Inl err \<Rightarrow> ((None, Some err), w1)
         | Inr buf \<Rightarrow>
             (let configFilename = ID c1 @ ''.toml'';
                  configPath = Join [SiteStore.SitePath s, configFilename]
              in case WriteFile (files w1) configPath (TomlDocument buf) of
                   Inl err \<Rightarrow> ((None, Some err), w1)
                 | Inr fs \<Rightarrow>
                     (case cmd_Run X (scaffold_cmd configPath (ID c1)) (w1\<lparr>files := fs\<rparr>) of
                        (p, w2) \<Rightarrow>
                          (case Err p of
                             Some err \<Rightarrow> ((None, Some err), Log ErrorLevel (Stderr p) w2)
                           | None \<Rightarrow>
                               (let w3 = Log InfoLevel (Stdout p) (Log InfoLevel ''Output:'' w2);
                                    newConfigPath =
                                      Join [SiteStore.SitePath s, ID c1, ''config.toml'']
                                in ((Some site, None),
                                    w3\<lparr>files := Rename (files w3) configPath newConfigPath\<rparr>))))))"

text \<open>\<^verbatim>\<open>SiteStore.Create\<close> (lines 82-146).\<close>

definition SiteStore_Create ::
  "system \<Rightarrow> SiteStore \<Rightarrow> nat \<Rightarrow> world \<Rightarrow> ((Site option \<times> error option) \<times> world) outcome" where
  "SiteStore_Create X s config w =
     (case heap w config of
        None \<Rightarrow> Panics
      | Some c \<Rightarrow>
          (case Create_theme X s c w of
             (Some r, w1) \<Rightarrow> Returns (r, w1)
           | (None, w1) \<Rightarrow> Returns (Create_site X s config c w1)))"

text \<open>
  \<^verbatim>\<open>SiteStore.Find\<close> (lines 149-168): the site's directory must be listable and its
  \<^verbatim>\<open>config.toml\<close> must decode; the decoded configuration gets the site's path and is
  returned as a new object.
\<close>

definition SiteStore_Find :: "SiteStore \<Rightarrow> string \<Rightarrow> world \<Rightarrow> Site option \<times> world" where
  "SiteStore_Find s ident w =
     (let sitePath = Join [SiteStore.SitePath s, ident] in
      case ReadDir (files w) sitePath of
        Some err \<Rightarrow>
          (None, Log ErrorLevel (''Site path '' @ quoted sitePath @ '' doesn't exist'') w)
      | None \<Rightarrow>
          (let configPath = Join [sitePath, ''config.toml''] in
           case toml_DecodeFile (files w) configPath of
             Inl err \<Rightarrow>
               (None, Log ErrorLevel (''Couldn't decode TOML! '' @ Error_string err) w)
           | Inr config \<Rightarrow>
               (case new (config\<lparr>SitePath := sitePath\<rparr>) w of
                  (a, w1) \<Rightarrow> (Some \<lparr>Config = a\<rparr>, w1))))"

section \<open>Sites\<close>

text \<open>
  \<^verbatim>\<open>Site.Build\<close> (lines 43-57): \<^verbatim>\<open>hugo\<close> with the site's path as working directory.
  A site whose pointer points to no configuration panics.
\<close>

definition Site_Build :: "system \<Rightarrow> Site \<Rightarrow> world \<Rightarrow> (error option \<times> world) outcome" where
  "Site_Build X s w =
     (case heap w (Config s) of
        None \<Rightarrow> Panics
      | Some c \<Rightarrow>
          (case cmd_Run X ((exec_Command ''hugo'' [])\<lparr>Dir := SitePath c\<rparr>) w of
             (p, w1) \<Rightarrow>
               (case Err p of
                  Some err \<Rightarrow> Returns (Some err, Log ErrorLevel (Stderr p) w1)
                | None \<Rightarrow> Returns (None, Log InfoLevel (Stdout p) w1))))"

section \<open>Theme resolution, seen from outside\<close>

text \<open>
  When the theme resolution of \<^verbatim>\<open>Create\<close> lets the call go on: the theme's directory is
  there, or there is a URL and the clone from it succeeds.
\<close>

definition theme_resolves :: "system \<Rightarrow> SiteStore \<Rightarrow> SiteConfig \<Rightarrow> world \<Rightarrow> bool" where
  "theme_resolves X s c w =
     (case ThemeStore_Find (ThemeStore s) (Theme c) w of
        Some theme \<Rightarrow> True
      | None \<Rightarrow>
          ThemeURL c \<noteq> [] \<and>
          Err (fst (X (exec_Command ''git''
                        [''clone'', ThemeURL c, Join [StorePath (ThemeStore s), Theme c]])
                     (files w))) = None)"

section \<open>Callers and collaborators\<close>

text \<open>What a call that returned gave back, and the world it left.\<close>

definition answer :: "('a \<times> world) outcome \<Rightarrow> 'a option" where
  "answer r = (case r of Returns (x, w) \<Rightarrow> Some x | Panics \<Rightarrow> None)"

definition after :: "('a \<times> world) outcome \<Rightarrow> world option" where
  "after r = (case r of Returns (x, w) \<Rightarrow> Some w | Panics \<Rightarrow> None)"

text \<open>The configuration a returned site points to.\<close>

definition found_config :: "Site option \<times> world \<Rightarrow> SiteConfig option" where
  "found_config r = (case r of (None, w) \<Rightarrow> None | (Some site, w) \<Rightarrow> heap w (Config site))"

text \<open>
  A caller that creates a site and at once looks it up under the ID of the configuration
  it passed: what \<^verbatim>\<open>Create\<close> returned, and the configuration \<^verbatim>\<open>Find\<close> came back with.
\<close>

definition Create_then_Find ::
  "system \<Rightarrow> SiteStore \<Rightarrow> nat \<Rightarrow> world \<Rightarrow> ((Site option \<times> error option) \<times> SiteConfig option) outcome" where
  "Create_then_Find X s config w =
     (case SiteStore_Create X s config w of
        Panics \<Rightarrow> Panics
      | Returns (r, w1) \<Rightarrow>
          (case heap w1 config of
             None \<Rightarrow> Panics
           | Some c \<Rightarrow> Returns (r, found_config (SiteStore_Find s (ID c) w1))))"

text \<open>
  The steps of \<^verbatim>\<open>Create\<close> after the theme resolution, started on the files \<^verbatim>\<open>fs0\<close>,
  all succeed: the configuration encodes, the file is written, and the scaffold command
  runs without an error.
\<close>

definition provisions :: "system \<Rightarrow> SiteStore \<Rightarrow> SiteConfig \<Rightarrow> filesystem \<Rightarrow> bool" where
  "provisions X s c fs0 =
     (let configPath = Join [SiteStore.SitePath s, ID c @ ''.toml''] in
      case toml_Encode (Create_layout s c) of
        Inl err \<Rightarrow> False
      | Inr buf \<Rightarrow>
          (case WriteFile fs0 configPath (TomlDocument buf) of
             Inl err \<Rightarrow> False
           | Inr fs \<Rightarrow> Err (fst (X (scaffold_cmd configPath (ID c)) fs)) = None))"

text \<open>The fetches among the commands run so far.\<close>

definition fetches :: "Cmd list \<Rightarrow> Cmd list" where
  "fetches cs = filter (\<lambda>cmd. Path cmd = ''git'') cs"

text \<open>
  What the program expects of its collaborators, as far as the properties below need it.
  A clone that succeeds leaves a directory at its destination. The scaffold run for a
  site leaves a given path as it found it. A scaffold run that succeeds for the site
  \<^verbatim>\<open>ident\<close> of the store leaves the store's and the site's directory, has not touched
  the configuration staged for it, and has put no directory where the configuration is
  to go.
\<close>

definition clone_lands :: "system \<Rightarrow> string \<Rightarrow> bool" where
  "clone_lands X themePath =
     (\<forall>url fs. case X (exec_Command ''git'' [''clone'', url, themePath]) fs of
        (p, fs') \<Rightarrow> Err p = None \<longrightarrow> fs' themePath = Some (Directory True))"

definition scaffold_keeps :: "system \<Rightarrow> SiteStore \<Rightarrow> string \<Rightarrow> string \<Rightarrow> bool" where
  "scaffold_keeps X s ident path =
     (\<forall>fs. snd (X (scaffold_cmd (Join [SiteStore.SitePath s, ident @ ''.toml'']) ident) fs) path
            = fs path)"

definition scaffolds :: "system \<Rightarrow> SiteStore \<Rightarrow> string \<Rightarrow> bool" where
  "scaffolds X s ident =
     (let configPath = Join [SiteStore.SitePath s, ident @ ''.toml''];
          newConfigPath = Join [SiteStore.SitePath s, ident, ''config.toml'']
      in \<forall>fs. case X (scaffold_cmd configPath ident) fs of
           (p, fs') \<Rightarrow>
             Err p = None \<longrightarrow>
               fs' (Join [SiteStore.SitePath s, ident]) = Some (Directory True)
               \<and> fs' configPath = fs configPath
               \<and> fs' (Dir_of configPath) = Some (Directory True)
               \<and> fs' (Dir_of newConfigPath) = Some (Directory True)
               \<and> (case fs' newConfigPath of Some (Directory ok) \<Rightarrow> False | _ \<Rightarrow> True))"

section \<open>A concrete installation\<close>

text \<open>
  The two stores as \<^verbatim>\<open>main\<close> builds them over empty store directories, the
  configuration of the site \<^verbatim>\<open>acme\<close> with the theme \<^verbatim>\<open>ananke\<close>, and a world with that
  configuration at address 0.
\<close>

definition themeStore :: ThemeStore where
  "themeStore = \<lparr>Themes = Map.empty, StorePath = defaultThemeStorePath\<rparr>"

definition siteStore :: SiteStore where
  "siteStore = \<lparr>Sites = Map.empty, SitePath = defaultSiteStorePath, ThemeStore = themeStore\<rparr>"

definition acme :: "string \<Rightarrow> SiteConfig" where
  "acme url =
     \<lparr>ID = ''acme'', ThemeURL = url, SitePath = [],
      ThemesDir = [], ContentDir = ''stale'', LayoutDir = [], PublishDir = [],
      BaseURL = ''http://localhost'', LanguageCode = ''en-us'', Title = ''Test Site'',
      Theme = ''ananke''\<rparr>"

definition bare_fs :: filesystem where
  "bare_fs = [''/tmp/sites'' \<mapsto> Directory True, ''/tmp/themes'' \<mapsto> Directory True]"

definition themed_fs :: filesystem where
  "themed_fs = bare_fs(''/tmp/themes/ananke'' \<mapsto> Directory True)"

text \<open>A second site with the same theme and the same URL, and a world holding both.\<close>

definition ananke_url :: string where
  "ananke_url = ''https://example.org/ananke.git''"

definition beta :: SiteConfig where
  "beta =
     \<lparr>ID = ''beta'', ThemeURL = ananke_url, SitePath = [],
      ThemesDir = [], ContentDir = [], LayoutDir = [], PublishDir = [],
      BaseURL = ''http://localhost'', LanguageCode = ''en-us'', Title = ''Second Site'',
      Theme = ''ananke''\<rparr>"

definition two_sites :: world where
  "two_sites =
     \<lparr>files = bare_fs, heap = [0 \<mapsto> acme ananke_url, 1 \<mapsto> beta], brk = 2,
      log = [], procs = []\<rparr>"

text \<open>
  File systems for the lookups: a theme directory the process may not list, a site whose
  \<^verbatim>\<open>config.toml\<close> is not TOML, one whose \<^verbatim>\<open>title\<close> is a number, and one whose
  \<^verbatim>\<open>config.toml\<close> names directories that are not the site's.
\<close>

definition locked_fs :: filesystem where
  "locked_fs = bare_fs(''/tmp/themes/ananke'' \<mapsto> Directory False)"

definition garbled_fs :: filesystem where
  "garbled_fs = bare_fs(''/tmp/sites/acme'' \<mapsto> Directory True,
     ''/tmp/sites/acme/config.toml'' \<mapsto> Regular True (OtherBytes ''title = ''))"

definition mistyped_fs :: filesystem where
  "mistyped_fs = bare_fs(''/tmp/sites/acme'' \<mapsto> Directory True,
     ''/tmp/sites/acme/config.toml'' \<mapsto> Regular True (TomlDocument [(''title'', TomlInteger 7)]))"

definition stale_fs :: filesystem where
  "stale_fs = bare_fs(''/tmp/sites/acme'' \<mapsto> Directory True,
     ''/tmp/sites/acme/config.toml'' \<mapsto>
       Regular True (TomlDocument
         [(''themesDir'', TomlString ''/old/themes''),
          (''contentDir'', TomlString ''/elsewhere/content''),
          (''title'', TomlString ''Old Site'')]))"

definition start :: "filesystem \<Rightarrow> SiteConfig \<Rightarrow> world" where
  "start fs c = \<lparr>files = fs, heap = [0 \<mapsto> c], brk = 1, log = [], procs = []\<rparr>"

text \<open>
  Three behaviours of the external programs. \<^verbatim>\<open>tools\<close>: \<^verbatim>\<open>git clone\<close> makes the
  directory named by its last argument; \<^verbatim>\<open>hugo new\<close> makes the site's directory under
  \<^verbatim>\<open>/tmp/sites\<close> and puts a \<^verbatim>\<open>config.toml\<close> of its own there. \<^verbatim>\<open>idle_tools\<close>: both exit with status 0 and touch nothing.
  \<^verbatim>\<open>broken_hugo\<close>: \<^verbatim>\<open>git\<close> as in \<^verbatim>\<open>tools\<close>, \<^verbatim>\<open>hugo\<close> fails with a message on its
  error stream.
\<close>

definition exit0 :: process where
  "exit0 = \<lparr>Stdout = ''ok'', Stderr = [], Err = None\<rparr>"

definition tools :: system where
  "tools cmd fs =
     (if Path cmd = ''git'' then (exit0, fs(last (Args cmd) \<mapsto> Directory True))
      else
        (let sitePath = Join [''/tmp/sites'', last (Args cmd)] in
         (exit0,
          fs(''/tmp/sites'' \<mapsto> Directory True,
             sitePath \<mapsto> Directory True,
             Join [sitePath, ''config.toml''] \<mapsto>
               Regular True (TomlDocument [(''title'', TomlString ''My New Hugo Site'')])))))"

definition idle_tools :: system where
  "idle_tools cmd fs = (exit0, fs)"

definition broken_hugo :: system where
  "broken_hugo cmd fs =
     (if Path cmd = ''git'' then (exit0, fs(last (Args cmd) \<mapsto> Directory True))
      else (\<lparr>Stdout = [], Stderr = ''Error: unable to locate config file'',
             Err = Some (ExitError ''exit status 255'')\<rparr>, fs))"

section \<open>Cleaned paths\<close>

text \<open>
  The path \<^verbatim>\<open>Find\<close> reads the configuration from, \<^verbatim>\<open>Join(Join(root, id), "config.toml")\<close>,
  is the path \<^verbatim>\<open>Create\<close> renames it to, \<^verbatim>\<open>Join(root, id, "config.toml")\<close>: cleaning a
  path, appending an element and cleaning again is cleaning once.
\<close>

lemma elements_not_Nil [simp]: "elements x \<noteq> []"
  by (induction x) (auto split: list.splits)

lemma elements_append: "elements (x @ CHR ''/'' # y) = elements x @ elements y"
  by (induction x) (auto split: list.splits)

lemma elements_no_sep: "e \<in> set (elements x) \<Longrightarrow> CHR ''/'' \<notin> set e"
  by (induction x arbitrary: e) (auto split: list.splits if_splits)

lemma elements_single: "CHR ''/'' \<notin> set e \<Longrightarrow> elements e = [e]"
  by (induction e) auto

lemma elements_strings_Join:
  "es \<noteq> [] \<Longrightarrow> list_all (\<lambda>e. CHR ''/'' \<notin> set e) es \<Longrightarrow> elements (strings_Join es ''/'') = es"
proof (induction es "''/''" rule: strings_Join.induct)
  case 1
  then show ?case by simp
next
  case (2 e)
  then show ?case by (simp add: elements_single)
next
  case (3 e v va)
  then show ?case by (simp add: elements_append elements_single)
qed

lemma dots_lead_snoc:
  "dots_lead (out @ [e]) = (if e = ''..'' then set out \<subseteq> {''..''} else dots_lead out)"
  by (induction out) auto

lemma dots_lead_butlast: "dots_lead out \<Longrightarrow> dots_lead (butlast out)"
  by (induction out) (auto dest: in_set_butlastD)

lemma dots_only_lead: "set out \<subseteq> {''..''} \<Longrightarrow> dots_lead out"
  by (induction out) auto

lemma dots_lead_last: "dots_lead out \<Longrightarrow> out \<noteq> [] \<Longrightarrow> last out = ''..'' \<Longrightarrow> set out \<subseteq> {''..''}"
proof (induction out)
  case Nil
  then show ?case by simp
next
  case (Cons a out)
  show ?case
  proof (cases "out = []")
    case True
    with Cons.prems show ?thesis by simp
  next
    case False
    then have "last out \<in> set out" by simp
    with Cons False show ?thesis by (auto split: if_splits)
  qed
qed

lemma clean_element_stack:
  assumes "clean_stack r out" "CHR ''/'' \<notin> set e"
  shows "clean_stack r (clean_element r out e)"
proof -
  have b: "list_all P out \<Longrightarrow> list_all P (butlast out)" for P :: "string \<Rightarrow> bool"
    by (auto simp: list_all_iff dest: in_set_butlastD)
  have d: "out \<noteq> [] \<Longrightarrow> last out = ''..'' \<Longrightarrow> set out \<subseteq> {''..''}"
    using assms(1) dots_lead_last [of out] by (simp add: clean_stack_def)
  consider "e = [] \<or> e = ''.''" | "e = ''..''" "out \<noteq> []" "last out \<noteq> ''..''"
    | "e = ''..''" "out = [] \<or> last out = ''..''" | "e \<noteq> []" "e \<noteq> ''.''" "e \<noteq> ''..''"
    by blast
  then show ?thesis
  proof cases
    case 1
    with assms show ?thesis by (auto simp: clean_element_def)
  next
    case 2
    with assms show ?thesis
      by (auto simp: clean_stack_def clean_element_def dots_lead_butlast b dest: in_set_butlastD)
  next
    case 3
    with d have "set out \<subseteq> {''..''}" by (cases "out = []") auto
    with 3 assms show ?thesis
      by (auto simp: clean_stack_def clean_element_def dots_lead_snoc)
  next
    case 4
    with assms show ?thesis
      by (auto simp: clean_stack_def clean_element_def dots_lead_snoc)
  qed
qed

lemma foldl_clean_stack:
  "clean_stack r out \<Longrightarrow> list_all (\<lambda>e. CHR ''/'' \<notin> set e) es \<Longrightarrow>
   clean_stack r (foldl (clean_element r) out es)"
  by (induction es arbitrary: out) (auto simp: clean_element_stack)

lemma foldl_clean_stack_id:
  "clean_stack r out \<Longrightarrow> foldl (clean_element r) [] out = out"
proof (induction out rule: rev_induct)
  case Nil
  then show ?case by simp
next
  case (snoc e out)
  then have "clean_stack r out"
    by (auto simp: clean_stack_def dots_lead_snoc dots_only_lead split: if_splits)
  with snoc have "foldl (clean_element r) [] out = out" by simp
  moreover have "clean_element r out e = out @ [e]"
  proof (cases "e = ''..''")
    case True
    with snoc.prems have "set out \<subseteq> {''..''}" "\<not> r"
      by (auto simp: clean_stack_def dots_lead_snoc split: if_splits)
    moreover from this have "out \<noteq> [] \<Longrightarrow> last out = ''..''"
      using last_in_set [of out] by blast
    ultimately show ?thesis using True by (auto simp: clean_element_def)
  next
    case False
    with snoc.prems show ?thesis by (auto simp: clean_stack_def clean_element_def)
  qed
  ultimately show ?case by simp
qed

lemma clean_stack_Nil [simp]: "clean_stack r []"
  by (simp add: clean_stack_def)

lemma elements_all_no_sep: "list_all (\<lambda>e. CHR ''/'' \<notin> set e) (elements x)"
  by (simp add: list_all_iff elements_no_sep)

lemma Clean_render:
  "x \<noteq> [] \<Longrightarrow> Clean x = render (hd x = CHR ''/'') (foldl (clean_element (hd x = CHR ''/'')) [] (elements x))"
  by (simp add: Clean_def render_def Let_def)

lemma strings_Join_Nil_iff:
  "list_all (\<lambda>e. e \<noteq> []) out \<Longrightarrow> strings_Join out sep = [] \<longleftrightarrow> out = []"
  by (induction out sep rule: strings_Join.induct) auto

lemma hd_strings_Join:
  "out \<noteq> [] \<Longrightarrow> list_all (\<lambda>e. e \<noteq> []) out \<Longrightarrow> hd (strings_Join out sep) = hd (hd out)"
  by (induction out sep rule: strings_Join.induct) auto

lemma render_rooted:
  assumes "clean_stack r out"
  shows "render r out \<noteq> []" and "(hd (render r out) = CHR ''/'') = r"
proof -
  have ne: "list_all (\<lambda>e. e \<noteq> []) out"
    using assms by (auto simp: clean_stack_def list_all_iff)
  show "render r out \<noteq> []" by (simp add: render_def)
  show "(hd (render r out) = CHR ''/'') = r"
  proof (cases "r \<or> out = []")
    case True
    then show ?thesis by (auto simp: render_def)
  next
    case False
    then obtain e es where o: "out = e # es" by (cases out) auto
    with assms have "e \<noteq> []" "CHR ''/'' \<notin> set e" by (auto simp: clean_stack_def)
    then have "hd e \<noteq> CHR ''/''" by (cases e) auto
    with False ne o show ?thesis
      using hd_strings_Join [of out "''/''"] strings_Join_Nil_iff [of out "''/''"]
      by (simp add: render_def)
  qed
qed

lemma elements_render:
  assumes "clean_stack r out"
  shows "foldl (clean_element r) [] (elements (render r out)) = out"
proof -
  have ne: "list_all (\<lambda>e. e \<noteq> []) out" and ns: "list_all (\<lambda>e. CHR ''/'' \<notin> set e) out"
    using assms by (auto simp: clean_stack_def list_all_iff)
  show ?thesis
  proof (cases "out = []")
    case True
    then show ?thesis by (simp add: render_def clean_element_def)
  next
    case False
    with ns have "elements (strings_Join out ''/'') = out" by (simp add: elements_strings_Join)
    moreover have "foldl (clean_element r) [] out = out"
      using assms by (rule foldl_clean_stack_id)
    moreover have "strings_Join out ''/'' \<noteq> []"
      using False ne strings_Join_Nil_iff [of out "''/''"] by simp
    ultimately show ?thesis
      by (cases r) (simp_all add: render_def clean_element_def)
  qed
qed

lemma Clean_Clean_append:
  assumes "x \<noteq> []"
  shows "Clean (Clean x @ CHR ''/'' # y) = Clean (x @ CHR ''/'' # y)"
proof -
  define r where "r = (hd x = CHR ''/'')"
  define out where "out = foldl (clean_element r) [] (elements x)"
  have cs: "clean_stack r out"
    unfolding out_def by (rule foldl_clean_stack) (simp_all add: elements_all_no_sep)
  have cx: "Clean x = render r out"
    using assms by (simp add: Clean_render r_def out_def)
  have "Clean (render r out @ CHR ''/'' # y) =
        render r (foldl (clean_element r) out (elements y))"
    using render_rooted [OF cs] elements_render [OF cs]
    by (simp add: Clean_render elements_append)
  moreover have "Clean (x @ CHR ''/'' # y) = render r (foldl (clean_element r) out (elements y))"
    using assms by (simp add: Clean_render elements_append r_def out_def)
  ultimately show ?thesis by (simp add: cx)
qed

lemma Clean_not_Nil [simp]: "Clean x \<noteq> []"
  by (simp add: Clean_def Let_def)

lemma Join_Join: "Join [Join [a, b], c] = Join [a, b, c]"
proof (cases "a = []")
  case True
  then show ?thesis
    using Clean_Clean_append [of b c] by (cases "b = []") (simp_all add: Join.simps)
next
  case False
  then show ?thesis
    using Clean_Clean_append [of "a @ CHR ''/'' # b" c] by (simp add: Join.simps)
qed

text \<open>Joining a cleaned path and a plain name appends the name.\<close>

lemma strings_Join_snoc:
  "out \<noteq> [] \<Longrightarrow> strings_Join (out @ [t]) sep = strings_Join out sep @ sep @ t"
  by (induction out sep rule: strings_Join.induct) auto

lemma Join_plain_name:
  assumes "plain_name t" and cl: "Clean root = root" and "root \<noteq> ''/''" and "root \<noteq> ''.''"
  shows "Join [root, t] = root @ ''/'' @ t"
proof -
  define r where "r = (hd root = CHR ''/'')"
  define out where "out = foldl (clean_element r) [] (elements root)"
  have ne: "root \<noteq> []" using cl Clean_not_Nil [of root] by auto
  have cs: "clean_stack r out"
    unfolding out_def by (rule foldl_clean_stack) (simp_all add: elements_all_no_sep)
  have root: "root = render r out"
    using ne cl by (simp add: Clean_render r_def out_def)
  have "clean_element r out t = out @ [t]"
    using assms(1) by (simp add: clean_element_def plain_name_def)
  moreover have "elements t = [t]"
    using assms(1) by (simp add: elements_single plain_name_def)
  ultimately have "Clean (root @ CHR ''/'' # t) = render r (out @ [t])"
    using ne by (simp add: Clean_render elements_append r_def out_def)
  moreover have "out \<noteq> []"
    using root assms(3,4) by (auto simp: render_def split: if_splits)
  moreover have "t \<noteq> []" using assms(1) by (simp add: plain_name_def)
  ultimately have "Clean (root @ CHR ''/'' # t) = render r out @ ''/'' @ t"
    using root assms(3,4) by (auto simp: render_def strings_Join_snoc split: if_splits)
  with ne root show ?thesis by (simp add: Join.simps)
qed

section \<open>The steps of \<^verbatim>\<open>Create\<close>\<close>

lemma Log_fields [simp]:
  "files (Log l m w) = files w" "heap (Log l m w) = heap w" "brk (Log l m w) = brk w"
  "procs (Log l m w) = procs w" "log (Log l m w) = log w @ [(l, m)]"
  by (simp_all add: Log_def)

lemma cmd_Run_fields:
  assumes "cmd_Run X cmd w = (p, w1)"
  shows "X cmd (files w) = (p, files w1)" "heap w1 = heap w" "brk w1 = brk w"
    "procs w1 = procs w @ [cmd]" "log w1 = log w"
  using assms by (auto simp: cmd_Run_def split: prod.splits)

lemma Fetch_cases:
  assumes "ThemeStore_Fetch X ts name url w = ((t, e), w1)"
  shows "\<exists>p. X (exec_Command ''git'' [''clone'', url, Join [StorePath ts, name]]) (files w) = (p, files w1)
    \<and> e = Err p \<and> (t = None) = (e \<noteq> None)
    \<and> heap w1 = heap w \<and> brk w1 = brk w
    \<and> procs w1 = procs w @ [exec_Command ''git'' [''clone'', url, Join [StorePath ts, name]]]"
  using assms
  by (auto simp: ThemeStore_Fetch_def Let_def cmd_Run_def split: prod.splits option.splits dest: sym)

lemma Create_theme_found:
  "ThemeStore_Find (ThemeStore s) (Theme c) w = Some t \<Longrightarrow> Create_theme X s c w = (None, w)"
  by (simp add: Create_theme_def)

lemma Create_theme_no_url:
  "ThemeStore_Find (ThemeStore s) (Theme c) w = None \<Longrightarrow> ThemeURL c = [] \<Longrightarrow>
   \<exists>w1. Create_theme X s c w = (Some (None, None), w1) \<and> files w1 = files w \<and> heap w1 = heap w
     \<and> procs w1 = procs w \<and> brk w1 = brk w"
  by (simp add: Create_theme_def Let_def)

lemma Create_theme_fetch:
  assumes "ThemeStore_Find (ThemeStore s) (Theme c) w = None" "ThemeURL c \<noteq> []"
    and "X (exec_Command ''git'' [''clone'', ThemeURL c, Join [StorePath (ThemeStore s), Theme c]]) (files w) = (p, fs)"
  shows "\<exists>w1. Create_theme X s c w = (case Err p of None \<Rightarrow> None | Some e \<Rightarrow> Some (None, Some e), w1)
     \<and> files w1 = fs \<and> heap w1 = heap w \<and> brk w1 = brk w
     \<and> procs w1 = procs w @ [exec_Command ''git'' [''clone'', ThemeURL c, Join [StorePath (ThemeStore s), Theme c]]]"
  using assms
  by (auto simp: Create_theme_def ThemeStore_Fetch_def Let_def cmd_Run_def split: prod.splits option.splits)

lemma Create_theme_heap:
  "Create_theme X s c w = (r, w1) \<Longrightarrow> heap w1 = heap w \<and> brk w1 = brk w"
  by (auto simp: Create_theme_def ThemeStore_Fetch_def Let_def cmd_Run_def split: prod.splits option.splits if_splits)

lemma Create_layout_fields [simp]:
  "ID (Create_layout s c) = ID c" "ThemeURL (Create_layout s c) = ThemeURL c"
  "BaseURL (Create_layout s c) = BaseURL c" "LanguageCode (Create_layout s c) = LanguageCode c"
  "Title (Create_layout s c) = Title c" "Theme (Create_layout s c) = Theme c"
  "SitePath (Create_layout s c) = Join [SiteStore.SitePath s, ID c]"
  "ThemesDir (Create_layout s c) = StorePath (ThemeStore s)"
  "ContentDir (Create_layout s c) = Join [Join [SiteStore.SitePath s, ID c], ''content'']"
  "LayoutDir (Create_layout s c) = Join [Join [SiteStore.SitePath s, ID c], ''layout'']"
  "PublishDir (Create_layout s c) = Join [Join [SiteStore.SitePath s, ID c], ''public'']"
  by (simp_all add: Create_layout_def Let_def)

lemma Create_site_heap:
  "Create_site X s config c w = (r, w1) \<Longrightarrow>
     heap w1 = (heap w)(config \<mapsto> Create_layout s c) \<and> brk w1 = brk w"
  by (auto simp: Create_site_def Let_def cmd_Run_def toml_Encode_def
      split: prod.splits option.splits sum.splits)

lemma Create_site_success:
  assumes "Create_site X s config c w = ((Some site, e), w1)"
  shows "\<exists>doc fs p fs2. toml_Encode (Create_layout s c) = Inr doc
     \<and> WriteFile (files w) (Join [SiteStore.SitePath s, ID c @ ''.toml'']) (TomlDocument doc) = Inr fs
     \<and> X (scaffold_cmd (Join [SiteStore.SitePath s, ID c @ ''.toml'']) (ID c)) fs = (p, fs2)
     \<and> Err p = None \<and> e = None \<and> site = \<lparr>Config = config\<rparr>
     \<and> files w1 = Rename fs2 (Join [SiteStore.SitePath s, ID c @ ''.toml''])
                      (Join [SiteStore.SitePath s, ID c, ''config.toml''])
     \<and> procs w1 = procs w @ [scaffold_cmd (Join [SiteStore.SitePath s, ID c @ ''.toml'']) (ID c)]"
  using assms
  by (auto simp: Create_site_def Let_def cmd_Run_def
      split: prod.splits option.splits sum.splits)

lemma theme_resolves_iff: "theme_resolves X s c w \<longleftrightarrow> fst (Create_theme X s c w) = None"
  by (auto simp: theme_resolves_def Create_theme_def ThemeStore_Fetch_def Let_def cmd_Run_def
      split: prod.splits option.splits)

lemma ThemeStore_Find_files:
  "ThemeStore_Find ts name w =
     (if files w (Join [StorePath ts, name]) = Some (Directory True) then Some Theme_struct else None)"
  by (auto simp: ThemeStore_Find_def ReadDir_def Let_def split: option.splits node.splits)

lemma Create_heap:
  assumes "heap w config = Some c" and "SiteStore_Create X s config w = Returns (r, w')"
  shows "heap w' = (if theme_resolves X s c w then (heap w)(config \<mapsto> Create_layout s c) else heap w)"
    and "brk w' = brk w"
proof -
  obtain t wt where t: "Create_theme X s c w = (t, wt)" by (cases "Create_theme X s c w")
  then have h: "heap wt = heap w" "brk wt = brk w" using Create_theme_heap by blast+
  have tr: "theme_resolves X s c w \<longleftrightarrow> t = None" using t by (simp add: theme_resolves_iff)
  show "heap w' = (if theme_resolves X s c w then (heap w)(config \<mapsto> Create_layout s c) else heap w)"
  proof (cases t)
    case None
    with assms t have "Create_site X s config c wt = (r, w')" by (simp add: SiteStore_Create_def)
    from Create_site_heap [OF this] h tr None show ?thesis by simp
  next
    case (Some a)
    with assms t h tr show ?thesis by (auto simp: SiteStore_Create_def)
  qed
  show "brk w' = brk w"
  proof (cases t)
    case None
    with assms t have "Create_site X s config c wt = (r, w')" by (simp add: SiteStore_Create_def)
    from Create_site_heap [OF this] h show ?thesis by simp
  next
    case (Some a)
    with assms t h show ?thesis by (auto simp: SiteStore_Create_def)
  qed
qed

lemma Create_returns:
  assumes "heap w config = Some c"
  shows "\<exists>r w'. SiteStore_Create X s config w = Returns (r, w')"
proof -
  obtain t wt where t: "Create_theme X s c w = (t, wt)" by (cases "Create_theme X s c w")
  obtain r' w'' where "Create_site X s config c wt = (r', w'')" by (cases "Create_site X s config c wt")
  with assms t show ?thesis by (cases t) (simp_all add: SiteStore_Create_def)
qed

lemma Create_site_Config:
  "Create_site X s config c w = ((Some site, e), w1) \<Longrightarrow> Config site = config \<and> e = None"
  using Create_site_success [of X s config c w site e w1] by auto

lemma Create_returns_Config:
  assumes "heap w config = Some c" and "SiteStore_Create X s config w = Returns ((Some site, e), w')"
  shows "Config site = config" "e = None" "theme_resolves X s c w"
proof -
  obtain t wt where t: "Create_theme X s c w = (t, wt)" by (cases "Create_theme X s c w")
  have "t = None"
  proof (cases t)
    case None then show ?thesis .
  next
    case (Some a)
    with assms t show ?thesis
      by (auto simp: SiteStore_Create_def Create_theme_def ThemeStore_Fetch_def Let_def cmd_Run_def
          split: option.splits prod.splits if_splits)
  qed
  with t show "theme_resolves X s c w" by (simp add: theme_resolves_iff)
  from \<open>t = None\<close> assms t have "Create_site X s config c wt = ((Some site, e), w')"
    by (simp add: SiteStore_Create_def)
  from Create_site_Config [OF this] show "Config site = config" "e = None" by simp_all
qed

lemma Create_site_run:
  assumes "toml_Encode (Create_layout s c) = Inr doc"
    and "WriteFile (files w) (Join [SiteStore.SitePath s, ID c @ ''.toml'']) (TomlDocument doc) = Inr fs"
    and "X (scaffold_cmd (Join [SiteStore.SitePath s, ID c @ ''.toml'']) (ID c)) fs = (p, fs2)"
  shows "\<exists>w1. Create_site X s config c w =
            ((if Err p = None then Some \<lparr>Config = config\<rparr> else None, Err p), w1)
     \<and> procs w1 = procs w @ [scaffold_cmd (Join [SiteStore.SitePath s, ID c @ ''.toml'']) (ID c)]
     \<and> log w1 = log w @ (case Err p of
                            Some e \<Rightarrow> [(ErrorLevel, Stderr p)]
                          | None \<Rightarrow> [(InfoLevel, ''Output:''), (InfoLevel, Stdout p)])
     \<and> files w1 = (if Err p = None
                    then Rename fs2 (Join [SiteStore.SitePath s, ID c @ ''.toml''])
                           (Join [SiteStore.SitePath s, ID c, ''config.toml''])
                    else fs2)"
  using assms
  by (auto simp: Create_site_def Let_def cmd_Run_def split: option.splits)

section \<open>The steps of \<^verbatim>\<open>Find\<close>\<close>

lemma toml_Decode_fields:
  assumes "toml_Decode t = Inr c"
  shows "string_field t ''themesDir'' = Inr (ThemesDir c)"
    "string_field t ''contentDir'' = Inr (ContentDir c)"
    "string_field t ''layoutDir'' = Inr (LayoutDir c)"
    "string_field t ''publishDir'' = Inr (PublishDir c)"
    "ID c = []" "ThemeURL c = []" "SitePath c = []"
  using assms by (auto simp: toml_Decode_def split: sum.splits)

lemma Find_decoded:
  assumes "ReadDir (files w) (Join [SiteStore.SitePath s, ident]) = None"
    and "toml_DecodeFile (files w) (Join [Join [SiteStore.SitePath s, ident], ''config.toml'']) = Inr c"
  shows "found_config (SiteStore_Find s ident w) = Some (c\<lparr>SitePath := Join [SiteStore.SitePath s, ident]\<rparr>)"
  using assms by (simp add: SiteStore_Find_def found_config_def new_def Let_def)

section \<open>Files through a successful \<^verbatim>\<open>Create\<close>\<close>

lemma WriteFile_Inr: "WriteFile fs0 f d = Inr fs \<Longrightarrow> fs = fs0(f \<mapsto> Regular True d)"
  by (auto simp: WriteFile_def split: option.splits node.splits bool.splits)

lemma WriteFile_other: "WriteFile fs0 f d = Inr fs \<Longrightarrow> fs0 g = Some (Directory b) \<Longrightarrow> fs g = Some (Directory b)"
  by (auto simp: WriteFile_def split: option.splits node.splits bool.splits)

lemma toml_Decode_Encode:
  "toml_Encode c = Inr doc \<Longrightarrow> toml_Decode doc = Inr (c\<lparr>ID := [], ThemeURL := [], SitePath := []\<rparr>)"
  by (auto simp: toml_Encode_def toml_Decode_def string_field_def)

lemma Rename_moves:
  assumes "fs src = Some (Regular ok d)" "fs (Dir_of src) = Some (Directory True)"
    "fs (Dir_of dst) = Some (Directory True)"
    "(case fs dst of Some (Directory b) \<Rightarrow> False | _ \<Rightarrow> True)"
  shows "Rename fs src dst = (fs(src := None))(dst \<mapsto> Regular ok d)"
  using assms by (auto simp: Rename_def split: option.splits node.splits)

lemma Rename_Directory:
  "fs g = Some (Directory b) \<Longrightarrow> Rename fs src dst g = Some (Directory b)"
  by (auto simp: Rename_def split: option.splits node.splits bool.splits)

lemma scaffoldsD:
  assumes "scaffolds X s ident"
    and "X (scaffold_cmd (Join [SiteStore.SitePath s, ident @ ''.toml'']) ident) fs = (p, fs2)"
    and "Err p = None"
  shows "fs2 (Join [SiteStore.SitePath s, ident]) = Some (Directory True)"
    and "fs2 (Join [SiteStore.SitePath s, ident @ ''.toml'']) = fs (Join [SiteStore.SitePath s, ident @ ''.toml''])"
    and "fs2 (Dir_of (Join [SiteStore.SitePath s, ident @ ''.toml''])) = Some (Directory True)"
    and "fs2 (Dir_of (Join [SiteStore.SitePath s, ident, ''config.toml''])) = Some (Directory True)"
    and "(case fs2 (Join [SiteStore.SitePath s, ident, ''config.toml'']) of
            Some (Directory b) \<Rightarrow> False | _ \<Rightarrow> True)"
proof -
  from assms(1) have "case X (scaffold_cmd (Join [SiteStore.SitePath s, ident @ ''.toml'']) ident) fs of
           (p, fs') \<Rightarrow>
             Err p = None \<longrightarrow>
               fs' (Join [SiteStore.SitePath s, ident]) = Some (Directory True)
               \<and> fs' (Join [SiteStore.SitePath s, ident @ ''.toml'']) = fs (Join [SiteStore.SitePath s, ident @ ''.toml''])
               \<and> fs' (Dir_of (Join [SiteStore.SitePath s, ident @ ''.toml''])) = Some (Directory True)
               \<and> fs' (Dir_of (Join [SiteStore.SitePath s, ident, ''config.toml''])) = Some (Directory True)
               \<and> (case fs' (Join [SiteStore.SitePath s, ident, ''config.toml'']) of Some (Directory ok) \<Rightarrow> False | _ \<Rightarrow> True)"
    unfolding scaffolds_def Let_def by (rule spec)
  with assms(2,3) show
    "fs2 (Join [SiteStore.SitePath s, ident]) = Some (Directory True)"
    "fs2 (Join [SiteStore.SitePath s, ident @ ''.toml'']) = fs (Join [SiteStore.SitePath s, ident @ ''.toml''])"
    "fs2 (Dir_of (Join [SiteStore.SitePath s, ident @ ''.toml''])) = Some (Directory True)"
    "fs2 (Dir_of (Join [SiteStore.SitePath s, ident, ''config.toml''])) = Some (Directory True)"
    "(case fs2 (Join [SiteStore.SitePath s, ident, ''config.toml'']) of
            Some (Directory b) \<Rightarrow> False | _ \<Rightarrow> True)"
    by simp_all
qed

lemma Create_success_steps:
  assumes "heap w config = Some c"
    and "SiteStore_Create X s config w = Returns ((Some site, err), w1)"
  shows "\<exists>wt doc fs p fs2. Create_theme X s c w = (None, wt)
     \<and> toml_Encode (Create_layout s c) = Inr doc
     \<and> WriteFile (files wt) (Join [SiteStore.SitePath s, ID c @ ''.toml'']) (TomlDocument doc) = Inr fs
     \<and> X (scaffold_cmd (Join [SiteStore.SitePath s, ID c @ ''.toml'']) (ID c)) fs = (p, fs2)
     \<and> Err p = None
     \<and> files w1 = Rename fs2 (Join [SiteStore.SitePath s, ID c @ ''.toml''])
                      (Join [SiteStore.SitePath s, ID c, ''config.toml''])
     \<and> procs w1 = procs wt @ [scaffold_cmd (Join [SiteStore.SitePath s, ID c @ ''.toml'']) (ID c)]"
proof -
  obtain t wt where t: "Create_theme X s c w = (t, wt)" by (cases "Create_theme X s c w")
  have "theme_resolves X s c w" using Create_returns_Config(3) [OF assms] .
  with t have tn: "t = None" by (simp add: theme_resolves_iff)
  with assms t have "Create_site X s config c wt = ((Some site, err), w1)"
    by (simp add: SiteStore_Create_def)
  from Create_site_success [OF this] t tn show ?thesis by blast
qed

lemma clone_landsD:
  assumes "clone_lands X path"
    and "X (exec_Command ''git'' [''clone'', url, path]) fs = (p, fs')"
    and "Err p = None"
  shows "fs' path = Some (Directory True)"
proof -
  from assms(1) have "case X (exec_Command ''git'' [''clone'', url, path]) fs of
        (p, fs') \<Rightarrow> Err p = None \<longrightarrow> fs' path = Some (Directory True)"
    unfolding clone_lands_def by (elim allE)
  with assms(2,3) show ?thesis by simp
qed

lemma scaffold_keepsD:
  assumes "scaffold_keeps X s ident path"
    and "X (scaffold_cmd (Join [SiteStore.SitePath s, ident @ ''.toml'']) ident) fs = (p, fs')"
  shows "fs' path = fs path"
proof -
  from assms(1)
  have "snd (X (scaffold_cmd (Join [SiteStore.SitePath s, ident @ ''.toml'']) ident) fs) path = fs path"
    unfolding scaffold_keeps_def by (rule spec)
  with assms(2) show ?thesis by simp
qed

lemma Create_site_fetches:
  "Create_site X s config c w = (r, w1) \<Longrightarrow> fetches (procs w1) = fetches (procs w)"
  by (auto simp: Create_site_def Let_def cmd_Run_def fetches_def scaffold_cmd_def exec_Command_def
      split: prod.splits option.splits sum.splits)

lemma Create_local_no_fetch:
  assumes "heap w config = Some c"
    and "files w (Join [StorePath (ThemeStore s), Theme c]) = Some (Directory True)"
    and "SiteStore_Create X s config w = Returns (r, w1)"
  shows "fetches (procs w1) = fetches (procs w)"
proof -
  have "ThemeStore_Find (ThemeStore s) (Theme c) w = Some Theme_struct"
    using assms(2) by (simp add: ThemeStore_Find_files)
  then have "Create_theme X s c w = (None, w)" by (rule Create_theme_found)
  with assms(1,3) have "Create_site X s config c w = (r, w1)"
    by (simp add: SiteStore_Create_def)
  then show ?thesis by (rule Create_site_fetches)
qed

lemma Create_site_succeeds_iff:
  "(\<exists>site w1. Create_site X s config c w = ((Some site, None), w1)) \<longleftrightarrow> provisions X s c (files w)"
  by (auto simp: Create_site_def provisions_def Let_def cmd_Run_def
      split: prod.splits option.splits sum.splits)

section \<open>Evaluating the concrete installation\<close>

lemmas path_eval = Join.simps Clean_def clean_element_def Dir_of_def Let_def

lemmas site_eval = themeStore_def siteStore_def acme_def bare_fs_def themed_fs_def start_def
  defaultSiteStorePath_def defaultThemeStorePath_def locked_fs_def garbled_fs_def
  mistyped_fs_def stale_fs_def ananke_url_def beta_def two_sites_def

lemmas tool_eval = tools_def idle_tools_def broken_hugo_def exit0_def exec_Command_def
  scaffold_cmd_def

lemmas run_eval = SiteStore_Create_def Create_theme_def Create_site_def Create_layout_def
  ThemeStore_Find_def ThemeStore_Fetch_def SiteStore_Find_def cmd_Run_def
  ReadDir_def WriteFile_def Rename_def Log_def quoted_def toml_Encode_def toml_Decode_def
  toml_DecodeFile_def string_field_def new_def found_config_def answer_def after_def
  Create_then_Find_def

section \<open>Properties of the stores\<close>

subsection \<open>A missing theme and no URL\<close>

text \<open>
  C1. Take any configuration whose theme has no directory that can be listed under the
  theme store's path and whose \<^verbatim>\<open>ThemeURL\<close> is empty. \<^verbatim>\<open>Create\<close> returns no site, and
  it leaves the file system, the caller's configuration and the list of started commands
  as they were: no site directory is left behind. The error it returns with is \<^verbatim>\<open>nil\<close>:
  the branch logs that it aborts and returns the named result \<^verbatim>\<open>err\<close>, which nothing
  has assigned yet.
\<close>

theorem Create_missing_theme_empty_url:
  assumes "heap w config = Some c"
    and "files w (Join [StorePath (ThemeStore s), Theme c]) \<noteq> Some (Directory True)"
    and "ThemeURL c = []"
  shows "\<exists>w'. SiteStore_Create X s config w = Returns ((None, None), w')
           \<and> files w' = files w \<and> heap w' = heap w \<and> procs w' = procs w"
proof -
  from assms(2) have "ThemeStore_Find (ThemeStore s) (Theme c) w = None"
    by (simp add: ThemeStore_Find_files)
  from Create_theme_no_url [OF this assms(3), of X]
  obtain w1 where "Create_theme X s c w = (Some (None, None), w1)"
    "files w1 = files w" "heap w1 = heap w" "procs w1 = procs w" by blast
  with assms(1) show ?thesis by (simp add: SiteStore_Create_def)
qed

text \<open>The site \<^verbatim>\<open>acme\<close> without a URL, over empty store directories.\<close>

theorem Create_missing_theme_empty_url_witness:
  "heap (start bare_fs (acme [])) 0 = Some (acme [])
   \<and> files (start bare_fs (acme [])) (Join [StorePath (ThemeStore siteStore), Theme (acme [])])
       \<noteq> Some (Directory True)
   \<and> ThemeURL (acme []) = []
   \<and> (\<exists>w'. SiteStore_Create idle_tools siteStore 0 (start bare_fs (acme [])) = Returns ((None, None), w')
         \<and> files w' = bare_fs)"
proof -
  have h1: "heap (start bare_fs (acme [])) 0 = Some (acme [])"
    by (simp add: start_def)
  have h2: "files (start bare_fs (acme [])) (Join [StorePath (ThemeStore siteStore), Theme (acme [])])
      \<noteq> Some (Directory True)"
    by (simp add: site_eval path_eval)
  have h3: "ThemeURL (acme []) = []"
    by (simp add: acme_def)
  have f: "files (start bare_fs (acme [])) = bare_fs"
    by (simp add: start_def)
  from Create_missing_theme_empty_url [OF h1 h2 h3, of idle_tools] h1 h2 h3 f
  show ?thesis by auto
qed

subsection \<open>The persisted form of a configuration\<close>

text \<open>
  C6. Encoding any \<^verbatim>\<open>SiteConfig\<close> succeeds, and decoding the document gives back the
  configuration with its eight persisted fields (\<^verbatim>\<open>themesDir\<close>, \<^verbatim>\<open>contentDir\<close>,
  \<^verbatim>\<open>layoutDir\<close>, \<^verbatim>\<open>publishDir\<close>, \<^verbatim>\<open>baseURL\<close>, \<^verbatim>\<open>languageCode\<close>, \<^verbatim>\<open>title\<close>,
  \<^verbatim>\<open>theme\<close>) as they were and the other three empty. The document has these eight keys
  and no other, and it is the same document whatever \<^verbatim>\<open>ID\<close>, \<^verbatim>\<open>ThemeURL\<close> and
  \<^verbatim>\<open>SitePath\<close> hold: they are never written.
\<close>

theorem toml_roundtrip:
  "\<exists>doc. toml_Encode c = Inr doc
     \<and> toml_Decode doc = Inr (c\<lparr>ID := [], ThemeURL := [], SitePath := []\<rparr>)
     \<and> map fst doc = [''themesDir'', ''contentDir'', ''layoutDir'', ''publishDir'',
                       ''baseURL'', ''languageCode'', ''title'', ''theme'']
     \<and> toml_Encode (c\<lparr>ID := i, ThemeURL := u, SitePath := p\<rparr>) = Inr doc"
  by (simp add: toml_Encode_def toml_Decode_def string_field_def)

subsection \<open>The layout of a new site\<close>

text \<open>
  C5. Whenever the theme resolution lets \<^verbatim>\<open>Create\<close> go on, the configuration the caller
  passed holds, after the call, the site's path \<^verbatim>\<open>Join(SitePath, ID)\<close>, the content,
  layout and publish directories \<^verbatim>\<open>content\<close>, \<^verbatim>\<open>layout\<close> and \<^verbatim>\<open>public\<close> under that
  path, and the theme store's path as themes directory, whatever these five fields held
  before; the other six fields are as the caller supplied them.
\<close>

theorem Create_layout_overwrites:
  assumes "heap w config = Some c"
    and "theme_resolves X s c w"
    and "SiteStore_Create X s config w = Returns (r, w')"
  shows "\<exists>c'. heap w' config = Some c'
     \<and> SitePath c' = Join [SiteStore.SitePath s, ID c]
     \<and> ContentDir c' = Join [SitePath c', ''content'']
     \<and> LayoutDir c' = Join [SitePath c', ''layout'']
     \<and> PublishDir c' = Join [SitePath c', ''public'']
     \<and> ThemesDir c' = StorePath (ThemeStore s)
     \<and> ID c' = ID c \<and> ThemeURL c' = ThemeURL c \<and> BaseURL c' = BaseURL c
     \<and> LanguageCode c' = LanguageCode c \<and> Title c' = Title c \<and> Theme c' = Theme c"
  using Create_heap(1) [OF assms(1,3)] assms(2) by simp

text \<open>The site \<^verbatim>\<open>acme\<close>, whose caller had put \<^verbatim>\<open>stale\<close> into the content directory.\<close>

theorem Create_layout_overwrites_witness:
  "heap (start themed_fs (acme [])) 0 = Some (acme [])
   \<and> theme_resolves tools siteStore (acme []) (start themed_fs (acme []))
   \<and> ContentDir (acme []) = ''stale''
   \<and> (\<exists>r w'. SiteStore_Create tools siteStore 0 (start themed_fs (acme [])) = Returns (r, w')
        \<and> map_option SitePath (heap w' 0) = Some ''/tmp/sites/acme''
        \<and> map_option ContentDir (heap w' 0) = Some ''/tmp/sites/acme/content''
        \<and> map_option LayoutDir (heap w' 0) = Some ''/tmp/sites/acme/layout''
        \<and> map_option PublishDir (heap w' 0) = Some ''/tmp/sites/acme/public''
        \<and> map_option ThemesDir (heap w' 0) = Some ''/tmp/themes'')"
proof -
  have h1: "heap (start themed_fs (acme [])) 0 = Some (acme [])"
    by (simp add: start_def)
  have h2: "theme_resolves tools siteStore (acme []) (start themed_fs (acme []))"
    by (simp add: theme_resolves_def ThemeStore_Find_files site_eval path_eval)
  have h3: "ContentDir (acme []) = ''stale''"
    by (simp add: acme_def)
  obtain r w' where c: "SiteStore_Create tools siteStore 0 (start themed_fs (acme [])) = Returns (r, w')"
    using Create_returns [OF h1] by blast
  from Create_layout_overwrites [OF h1 h2 c]
  obtain c' where "heap w' 0 = Some c'" "SitePath c' = ''/tmp/sites/acme''"
    "ContentDir c' = ''/tmp/sites/acme/content''" "LayoutDir c' = ''/tmp/sites/acme/layout''"
    "PublishDir c' = ''/tmp/sites/acme/public''" "ThemesDir c' = ''/tmp/themes''"
    by (auto simp: site_eval path_eval)
  with h1 h2 h3 c show ?thesis by auto
qed

subsection \<open>The caller's configuration is the site's configuration\<close>

text \<open>
  C10. \<^verbatim>\<open>Create\<close> works on the object its caller passed, not on a copy. A site it
  returns points to the very address it was given. Once the theme resolution has let the
  call go on, the heap after the call is the heap before it with the laid-out
  configuration at that address, and nothing else is allocated or changed; this is so
  whether the call then succeeds or fails while encoding, writing the file or running
  the scaffold command: a failed \<^verbatim>\<open>Create\<close> returns no site and leaves the five
  derived fields of the caller's configuration overwritten.
\<close>

theorem Create_writes_through:
  assumes "heap w config = Some c"
    and "SiteStore_Create X s config w = Returns ((site, err), w')"
  shows "(\<forall>st. site = Some st \<longrightarrow> Config st = config \<and> err = None)
     \<and> (theme_resolves X s c w \<longrightarrow> heap w' = (heap w)(config \<mapsto> Create_layout s c))
     \<and> (theme_resolves X s c w \<and> err \<noteq> None \<longrightarrow>
          site = None \<and> heap w' config = Some (Create_layout s c))
     \<and> brk w' = brk w"
proof -
  have a: "\<forall>st. site = Some st \<longrightarrow> Config st = config \<and> err = None"
    using Create_returns_Config(1,2) [OF assms(1)] assms(2) by blast
  have b: "theme_resolves X s c w \<longrightarrow> heap w' = (heap w)(config \<mapsto> Create_layout s c)"
    using Create_heap(1) [OF assms] by simp
  from a b Create_heap(2) [OF assms] show ?thesis by auto
qed

text \<open>The scaffold command fails; the caller's content directory is no longer \<^verbatim>\<open>stale\<close>.\<close>

theorem Create_writes_through_witness:
  "heap (start themed_fs (acme [])) 0 = Some (acme [])
   \<and> theme_resolves broken_hugo siteStore (acme []) (start themed_fs (acme []))
   \<and> ContentDir (acme []) = ''stale''
   \<and> (\<exists>w'. SiteStore_Create broken_hugo siteStore 0 (start themed_fs (acme [])) =
              Returns ((None, Some (ExitError ''exit status 255'')), w')
        \<and> map_option ContentDir (heap w' 0) = Some ''/tmp/sites/acme/content''
        \<and> map_option SitePath (heap w' 0) = Some ''/tmp/sites/acme'')"
proof -
  have h1: "heap (start themed_fs (acme [])) 0 = Some (acme [])"
    by (simp add: start_def)
  have h2: "theme_resolves broken_hugo siteStore (acme []) (start themed_fs (acme []))"
    by (simp add: theme_resolves_def ThemeStore_Find_files site_eval path_eval)
  have h3: "ContentDir (acme []) = ''stale''"
    by (simp add: acme_def)
  obtain w' where c: "SiteStore_Create broken_hugo siteStore 0 (start themed_fs (acme [])) =
      Returns ((None, Some (ExitError ''exit status 255'')), w')"
    by (simp add: run_eval site_eval tool_eval path_eval)
  from Create_writes_through [OF h1 c] h2
  have "heap w' 0 = Some (Create_layout siteStore (acme []))" by simp
  then have "map_option ContentDir (heap w' 0) = Some ''/tmp/sites/acme/content''"
    "map_option SitePath (heap w' 0) = Some ''/tmp/sites/acme''"
    by (simp_all add: site_eval path_eval)
  with h1 h2 h3 c show ?thesis by blast
qed

subsection \<open>Looking up themes and sites\<close>

text \<open>
  C9, as stated, fails for names that are not plain names, since the name is joined to
  the store's path as it is. Over empty store directories, where the theme store has no
  subdirectory at all, \<^verbatim>\<open>Find("../sites")\<close> returns a theme, because the joined path is
  the site store's directory; and \<^verbatim>\<open>Find("")\<close> returns a theme, because the joined path
  is the theme store's directory itself.
\<close>

theorem ThemeStore_Find_other_names_counterexample:
  "ThemeStore_Find themeStore ''../sites'' (start bare_fs (acme [])) = Some Theme_struct
   \<and> Join [StorePath themeStore, ''../sites''] = ''/tmp/sites''
   \<and> files (start bare_fs (acme [])) (StorePath themeStore @ ''/'' @ ''../sites'') = None
   \<and> ThemeStore_Find themeStore [] (start bare_fs (acme [])) = Some Theme_struct
   \<and> Join [StorePath themeStore, []] = ''/tmp/themes''
   \<and> files (start bare_fs (acme [])) (StorePath themeStore @ ''/'' @ []) = None"
  by (simp add: run_eval site_eval path_eval)

text \<open>
  C9, amended. For every theme name \<^verbatim>\<open>t\<close>, \<^verbatim>\<open>ThemeStore.Find\<close> returns a theme exactly
  when the path that joins the store's path and \<^verbatim>\<open>t\<close> is a directory the process can
  list, and \<^verbatim>\<open>nil\<close> in every other case: nothing there, a regular file, or a directory it
  is denied. For a plain name under a cleaned store path, that is exactly when the
  subdirectory \<^verbatim>\<open>t\<close> of the store's directory exists and can be listed.
\<close>

theorem ThemeStore_Find_directory:
  "ThemeStore_Find ts t w =
     (if files w (Join [StorePath ts, t]) = Some (Directory True) then Some Theme_struct else None)
   \<and> (plain_name t \<and> Clean (StorePath ts) = StorePath ts
        \<and> StorePath ts \<noteq> ''/'' \<and> StorePath ts \<noteq> ''.'' \<longrightarrow>
      ThemeStore_Find ts t w =
        (if files w (StorePath ts @ ''/'' @ t) = Some (Directory True)
         then Some Theme_struct else None))"
  using Join_plain_name [of t "StorePath ts"] by (simp add: ThemeStore_Find_files)

text \<open>The theme \<^verbatim>\<open>ananke\<close>: present, denied, and missing.\<close>

theorem ThemeStore_Find_directory_witness:
  "plain_name ''ananke'' \<and> Clean (StorePath themeStore) = StorePath themeStore
   \<and> StorePath themeStore \<noteq> ''/'' \<and> StorePath themeStore \<noteq> ''.''
   \<and> StorePath themeStore @ ''/'' @ ''ananke'' = ''/tmp/themes/ananke''
   \<and> ThemeStore_Find themeStore ''ananke'' (start themed_fs (acme [])) = Some Theme_struct
   \<and> ThemeStore_Find themeStore ''ananke'' (start locked_fs (acme [])) = None
   \<and> ThemeStore_Find themeStore ''ananke'' (start bare_fs (acme [])) = None"
proof -
  have h: "plain_name ''ananke''" "Clean (StorePath themeStore) = StorePath themeStore"
    "StorePath themeStore \<noteq> ''/''" "StorePath themeStore \<noteq> ''.''"
    by (simp_all add: plain_name_def site_eval path_eval)
  have p: "StorePath themeStore @ ''/'' @ ''ananke'' = ''/tmp/themes/ananke''"
    by (simp add: site_eval)
  have f: "files (start themed_fs (acme [])) ''/tmp/themes/ananke'' = Some (Directory True)"
    "files (start locked_fs (acme [])) ''/tmp/themes/ananke'' = Some (Directory False)"
    "files (start bare_fs (acme [])) ''/tmp/themes/ananke'' = None"
    by (simp_all add: site_eval)
  note t = ThemeStore_Find_directory [of themeStore "''ananke''", THEN conjunct2, rule_format,
      OF conjI [OF h(1) conjI [OF h(2) conjI [OF h(3) h(4)]]]]
  from t [of "start themed_fs (acme [])"] t [of "start locked_fs (acme [])"]
    t [of "start bare_fs (acme [])"] f
  have "ThemeStore_Find themeStore ''ananke'' (start themed_fs (acme [])) = Some Theme_struct"
    "ThemeStore_Find themeStore ''ananke'' (start locked_fs (acme [])) = None"
    "ThemeStore_Find themeStore ''ananke'' (start bare_fs (acme [])) = None"
    unfolding p by simp_all
  with h p show ?thesis by blast
qed

text \<open>
  C8. Neither lookup has an error to return. Whatever error \<^verbatim>\<open>ReadDir\<close> reports for
  the site's directory, and whatever error reading or decoding its \<^verbatim>\<open>config.toml\<close>
  reports, \<^verbatim>\<open>SiteStore.Find\<close> answers \<^verbatim>\<open>nil\<close>, and it leaves files and objects as they
  were; whatever error \<^verbatim>\<open>ReadDir\<close> reports for the theme's directory,
  \<^verbatim>\<open>ThemeStore.Find\<close> answers \<^verbatim>\<open>nil\<close>.
\<close>

theorem Find_errors_are_absence:
  "(ReadDir (files w) (Join [SiteStore.SitePath s, ident]) = Some e \<longrightarrow>
      fst (SiteStore_Find s ident w) = None)
   \<and> (toml_DecodeFile (files w) (Join [Join [SiteStore.SitePath s, ident], ''config.toml'']) = Inl e' \<longrightarrow>
      fst (SiteStore_Find s ident w) = None)
   \<and> (ReadDir (files w) (Join [StorePath ts, name]) = Some e'' \<longrightarrow>
      ThemeStore_Find ts name w = None)
   \<and> (fst (SiteStore_Find s ident w) = None \<longrightarrow>
      files (snd (SiteStore_Find s ident w)) = files w \<and> heap (snd (SiteStore_Find s ident w)) = heap w)"
  by (auto simp: SiteStore_Find_def ThemeStore_Find_def new_def Let_def split: option.splits sum.splits)

text \<open>
  A site that is not there, a configuration that is not TOML, one with a number for the
  title, and a theme directory the process is denied.
\<close>

theorem Find_errors_are_absence_witness:
  "ReadDir (files (start bare_fs (acme []))) (Join [SiteStore.SitePath siteStore, ''acme'']) =
     Some (PathError ''open'' ''/tmp/sites/acme'' ''no such file or directory'')
   \<and> fst (SiteStore_Find siteStore ''acme'' (start bare_fs (acme []))) = None
   \<and> toml_DecodeFile (files (start garbled_fs (acme [])))
        (Join [Join [SiteStore.SitePath siteStore, ''acme''], ''config.toml'']) =
        Inl (TomlError ''toml: syntax error'')
   \<and> fst (SiteStore_Find siteStore ''acme'' (start garbled_fs (acme []))) = None
   \<and> toml_DecodeFile (files (start mistyped_fs (acme [])))
        (Join [Join [SiteStore.SitePath siteStore, ''acme''], ''config.toml'']) =
        Inl (TomlError ''toml: incompatible types for key title'')
   \<and> fst (SiteStore_Find siteStore ''acme'' (start mistyped_fs (acme []))) = None
   \<and> ReadDir (files (start locked_fs (acme []))) (Join [StorePath themeStore, ''ananke'']) =
        Some (PathError ''open'' ''/tmp/themes/ananke'' ''permission denied'')
   \<and> ThemeStore_Find themeStore ''ananke'' (start locked_fs (acme [])) = None"
proof -
  have h1: "ReadDir (files (start bare_fs (acme []))) (Join [SiteStore.SitePath siteStore, ''acme'']) =
     Some (PathError ''open'' ''/tmp/sites/acme'' ''no such file or directory'')"
    by (simp add: ReadDir_def site_eval path_eval)
  have h2: "toml_DecodeFile (files (start garbled_fs (acme [])))
        (Join [Join [SiteStore.SitePath siteStore, ''acme''], ''config.toml'']) =
        Inl (TomlError ''toml: syntax error'')"
    by (simp add: toml_DecodeFile_def site_eval path_eval)
  have h3: "toml_DecodeFile (files (start mistyped_fs (acme [])))
        (Join [Join [SiteStore.SitePath siteStore, ''acme''], ''config.toml'']) =
        Inl (TomlError ''toml: incompatible types for key title'')"
    by (simp add: toml_DecodeFile_def toml_Decode_def string_field_def site_eval path_eval)
  have h4: "ReadDir (files (start locked_fs (acme []))) (Join [StorePath themeStore, ''ananke'']) =
        Some (PathError ''open'' ''/tmp/themes/ananke'' ''permission denied'')"
    by (simp add: ReadDir_def site_eval path_eval)
  from Find_errors_are_absence [of "start bare_fs (acme [])" siteStore "''acme''"] h1
  have a: "fst (SiteStore_Find siteStore ''acme'' (start bare_fs (acme []))) = None" by blast
  from Find_errors_are_absence [of "start garbled_fs (acme [])" siteStore "''acme''"] h2
  have b: "fst (SiteStore_Find siteStore ''acme'' (start garbled_fs (acme []))) = None" by blast
  from Find_errors_are_absence [of "start mistyped_fs (acme [])" siteStore "''acme''"] h3
  have c: "fst (SiteStore_Find siteStore ''acme'' (start mistyped_fs (acme []))) = None" by blast
  from Find_errors_are_absence [of "start locked_fs (acme [])" _ _ _ _ themeStore "''ananke''"] h4
  have d: "ThemeStore_Find themeStore ''ananke'' (start locked_fs (acme [])) = None" by blast
  from h1 h2 h3 h4 a b c d show ?thesis by blast
qed

subsection \<open>What \<^verbatim>\<open>Find\<close> takes from the file\<close>

text \<open>
  C4, as stated, fails: the site \<^verbatim>\<open>acme\<close> whose \<^verbatim>\<open>config.toml\<close> names
  \<^verbatim>\<open>/elsewhere/content\<close> and \<^verbatim>\<open>/old/themes\<close> comes back from \<^verbatim>\<open>Find\<close> with exactly these
  directories, not with the ones \<^verbatim>\<open>Create\<close> computes for it.
\<close>

theorem Find_stale_dirs_counterexample:
  "map_option ContentDir (found_config (SiteStore_Find siteStore ''acme'' (start stale_fs (acme [])))) =
     Some ''/elsewhere/content''
   \<and> map_option ThemesDir (found_config (SiteStore_Find siteStore ''acme'' (start stale_fs (acme [])))) =
     Some ''/old/themes''
   \<and> ContentDir (Create_layout siteStore (acme [])) = ''/tmp/sites/acme/content''
   \<and> ThemesDir (Create_layout siteStore (acme [])) = ''/tmp/themes''"
  by (simp add: run_eval site_eval path_eval)

text \<open>
  C4, amended. For every ID whose directory can be listed and whose \<^verbatim>\<open>config.toml\<close>
  decodes, \<^verbatim>\<open>Find\<close> returns a site whose \<^verbatim>\<open>SitePath\<close> is recomputed as
  \<^verbatim>\<open>Join(SitePath, id)\<close>, and whose themes, content, layout and publish directories are
  the values of the file, as they are.
\<close>

theorem Find_recomputes_SitePath_only:
  assumes "files w (Join [SiteStore.SitePath s, ident]) = Some (Directory True)"
    and "files w (Join [Join [SiteStore.SitePath s, ident], ''config.toml'']) =
           Some (Regular True (TomlDocument t))"
    and "toml_Decode t = Inr c"
  shows "\<exists>c'. found_config (SiteStore_Find s ident w) = Some c'
     \<and> SitePath c' = Join [SiteStore.SitePath s, ident]
     \<and> string_field t ''themesDir'' = Inr (ThemesDir c')
     \<and> string_field t ''contentDir'' = Inr (ContentDir c')
     \<and> string_field t ''layoutDir'' = Inr (LayoutDir c')
     \<and> string_field t ''publishDir'' = Inr (PublishDir c')"
proof -
  have "ReadDir (files w) (Join [SiteStore.SitePath s, ident]) = None"
    using assms(1) by (simp add: ReadDir_def)
  moreover have "toml_DecodeFile (files w) (Join [Join [SiteStore.SitePath s, ident], ''config.toml'']) = Inr c"
    using assms(2,3) by (simp add: toml_DecodeFile_def)
  ultimately have "found_config (SiteStore_Find s ident w) =
      Some (c\<lparr>SitePath := Join [SiteStore.SitePath s, ident]\<rparr>)"
    by (rule Find_decoded)
  with toml_Decode_fields(1-4) [OF assms(3)] show ?thesis by simp
qed

text \<open>The same site: the path is recomputed, the directories are the file's.\<close>

theorem Find_recomputes_SitePath_only_witness:
  "files (start stale_fs (acme [])) (Join [SiteStore.SitePath siteStore, ''acme'']) = Some (Directory True)
   \<and> files (start stale_fs (acme [])) (Join [Join [SiteStore.SitePath siteStore, ''acme''], ''config.toml'']) =
       Some (Regular True (TomlDocument
         [(''themesDir'', TomlString ''/old/themes''),
          (''contentDir'', TomlString ''/elsewhere/content''),
          (''title'', TomlString ''Old Site'')]))
   \<and> (\<exists>c'. found_config (SiteStore_Find siteStore ''acme'' (start stale_fs (acme []))) = Some c'
        \<and> SitePath c' = ''/tmp/sites/acme'' \<and> ThemesDir c' = ''/old/themes''
        \<and> ContentDir c' = ''/elsewhere/content'' \<and> LayoutDir c' = [] \<and> PublishDir c' = [])"
proof -
  let ?t = "[(''themesDir'', TomlString ''/old/themes''),
          (''contentDir'', TomlString ''/elsewhere/content''),
          (''title'', TomlString ''Old Site'')]"
  have h1: "files (start stale_fs (acme [])) (Join [SiteStore.SitePath siteStore, ''acme'']) = Some (Directory True)"
    by (simp add: site_eval path_eval)
  have h2: "files (start stale_fs (acme [])) (Join [Join [SiteStore.SitePath siteStore, ''acme''], ''config.toml'']) =
       Some (Regular True (TomlDocument ?t))"
    by (simp add: site_eval path_eval)
  obtain c where h3: "toml_Decode ?t = Inr c"
    by (simp add: toml_Decode_def string_field_def)
  have p: "Join [SiteStore.SitePath siteStore, ''acme''] = ''/tmp/sites/acme''"
    by (simp add: site_eval path_eval)
  from Find_recomputes_SitePath_only [OF h1 h2 h3]
  obtain c' where "found_config (SiteStore_Find siteStore ''acme'' (start stale_fs (acme []))) = Some c'"
    "SitePath c' = ''/tmp/sites/acme''" "ThemesDir c' = ''/old/themes''"
    "ContentDir c' = ''/elsewhere/content''" "LayoutDir c' = []" "PublishDir c' = []"
    by (auto simp: p string_field_def)
  with h1 h2 show ?thesis by blast
qed

subsection \<open>The scaffold command\<close>

text \<open>
  C3, as stated, fails: with a theme in place and a \<^verbatim>\<open>hugo\<close> that exits with status 255
  after writing a message to its error stream, the command \<^verbatim>\<open>Create\<close> ran carries no
  working directory although the store's path is \<^verbatim>\<open>/tmp/sites\<close>, and the error
  \<^verbatim>\<open>Create\<close> returns is the exit error; the message went to the log.
\<close>

theorem Create_scaffold_counterexample:
  "answer (SiteStore_Create broken_hugo siteStore 0 (start themed_fs (acme []))) =
     Some (None, Some (ExitError ''exit status 255''))
   \<and> map_option procs (after (SiteStore_Create broken_hugo siteStore 0 (start themed_fs (acme [])))) =
     Some [\<lparr>Path = ''hugo'',
            Args = [''hugo'', ''new'', ''--config'', ''/tmp/sites/acme.toml'', ''acme''],
            Dir = []\<rparr>]
   \<and> SiteStore.SitePath siteStore = ''/tmp/sites''
   \<and> map_option log (after (SiteStore_Create broken_hugo siteStore 0 (start themed_fs (acme [])))) =
     Some [(ErrorLevel, ''Error: unable to locate config file'')]
   \<and> Error_string (ExitError ''exit status 255'') = ''exit status 255''"
  by (simp add: run_eval site_eval tool_eval path_eval)

text \<open>
  C3, amended. Whenever \<^verbatim>\<open>Create\<close> gets as far as the scaffold command (the theme
  resolution fell through and the configuration was written), it runs exactly one more
  command: \<^verbatim>\<open>hugo new --config\<close> with the path of the written configuration and the
  site's ID. When that run fails, \<^verbatim>\<open>Create\<close> returns no site and the error of the run
  itself; the captured error stream is appended to the log at error level, and the files
  are left as the run left them. When it succeeds, \<^verbatim>\<open>Create\<close> returns the site.
\<close>

theorem Create_scaffold_invocation:
  assumes "heap w config = Some c"
    and "Create_theme X s c w = (None, wt)"
    and "toml_Encode (Create_layout s c) = Inr doc"
    and "WriteFile (files wt) (Join [SiteStore.SitePath s, ID c @ ''.toml'']) (TomlDocument doc) = Inr fs"
    and "X (scaffold_cmd (Join [SiteStore.SitePath s, ID c @ ''.toml'']) (ID c)) fs = (p, fs')"
  shows "\<exists>k w'. SiteStore_Create X s config w =
            Returns ((if Err p = None then Some \<lparr>Config = config\<rparr> else None, Err p), w')
     \<and> procs w' = procs wt @ [k]
     \<and> Path k = ''hugo''
     \<and> Args k = [''hugo'', ''new'', ''--config'', Join [SiteStore.SitePath s, ID c @ ''.toml''], ID c]
     \<and> (Err p \<noteq> None \<longrightarrow> log w' = log wt @ [(ErrorLevel, Stderr p)] \<and> files w' = fs')"
proof -
  from Create_site_run [where X = X and config = config, OF assms(3,4,5)]
  obtain w1 where w1: "Create_site X s config c wt =
            ((if Err p = None then Some \<lparr>Config = config\<rparr> else None, Err p), w1)"
    "procs w1 = procs wt @ [scaffold_cmd (Join [SiteStore.SitePath s, ID c @ ''.toml'']) (ID c)]"
    "log w1 = log wt @ (case Err p of
                            Some e \<Rightarrow> [(ErrorLevel, Stderr p)]
                          | None \<Rightarrow> [(InfoLevel, ''Output:''), (InfoLevel, Stdout p)])"
     "files w1 = (if Err p = None
                    then Rename fs' (Join [SiteStore.SitePath s, ID c @ ''.toml''])
                           (Join [SiteStore.SitePath s, ID c, ''config.toml''])
                    else fs')"
    by blast
  have "SiteStore_Create X s config w =
      Returns ((if Err p = None then Some \<lparr>Config = config\<rparr> else None, Err p), w1)"
    using assms(1,2) w1(1) by (simp add: SiteStore_Create_def)
  moreover have "Path (scaffold_cmd (Join [SiteStore.SitePath s, ID c @ ''.toml'']) (ID c)) = ''hugo''"
    "Args (scaffold_cmd (Join [SiteStore.SitePath s, ID c @ ''.toml'']) (ID c)) =
       [''hugo'', ''new'', ''--config'', Join [SiteStore.SitePath s, ID c @ ''.toml''], ID c]"
    by (simp_all add: scaffold_cmd_def exec_Command_def)
  moreover have "Err p \<noteq> None \<longrightarrow> log w1 = log wt @ [(ErrorLevel, Stderr p)] \<and> files w1 = fs'"
    using w1(3,4) by auto
  ultimately show ?thesis using w1(2) by blast
qed

text \<open>The failing \<^verbatim>\<open>hugo\<close> again.\<close>

theorem Create_scaffold_invocation_witness:
  "heap (start themed_fs (acme [])) 0 = Some (acme [])
   \<and> Create_theme broken_hugo siteStore (acme []) (start themed_fs (acme [])) =
       (None, start themed_fs (acme []))
   \<and> (\<exists>k w'. SiteStore_Create broken_hugo siteStore 0 (start themed_fs (acme [])) =
                Returns ((None, Some (ExitError ''exit status 255'')), w')
        \<and> procs w' = [k] \<and> Path k = ''hugo''
        \<and> Args k = [''hugo'', ''new'', ''--config'', ''/tmp/sites/acme.toml'', ''acme'']
        \<and> log w' = [(ErrorLevel, ''Error: unable to locate config file'')])"
proof -
  let ?w = "start themed_fs (acme [])"
  let ?p = "\<lparr>Stdout = [], Stderr = ''Error: unable to locate config file'',
             Err = Some (ExitError ''exit status 255'')\<rparr>"
  have h1: "heap ?w 0 = Some (acme [])"
    by (simp add: start_def)
  have h2: "Create_theme broken_hugo siteStore (acme []) ?w = (None, ?w)"
    by (simp add: Create_theme_def ThemeStore_Find_files site_eval path_eval)
  obtain doc where h3: "toml_Encode (Create_layout siteStore (acme [])) = Inr doc"
    by (simp add: toml_Encode_def)
  have j: "Join [SiteStore.SitePath siteStore, ID (acme []) @ ''.toml''] = ''/tmp/sites/acme.toml''"
    by (simp add: site_eval path_eval)
  obtain fs where h4: "WriteFile (files ?w) (Join [SiteStore.SitePath siteStore, ID (acme []) @ ''.toml''])
      (TomlDocument doc) = Inr fs"
    by (simp add: j WriteFile_def site_eval path_eval)
  have h5: "broken_hugo (scaffold_cmd (Join [SiteStore.SitePath siteStore, ID (acme []) @ ''.toml''])
      (ID (acme []))) fs = (?p, fs)"
    by (simp add: tool_eval)
  have i: "ID (acme []) = ''acme''" "procs ?w = []" "log ?w = []"
    "Join [SiteStore.SitePath siteStore, ''acme.toml''] = ''/tmp/sites/acme.toml''"
    by (simp_all add: site_eval path_eval)
  from Create_scaffold_invocation [where X = broken_hugo, OF h1 h2 h3 h4 h5]
  obtain k w' where "SiteStore_Create broken_hugo siteStore 0 ?w =
                Returns ((None, Some (ExitError ''exit status 255'')), w')"
     "procs w' = [k]" "Path k = ''hugo''"
     "Args k = [''hugo'', ''new'', ''--config'', ''/tmp/sites/acme.toml'', ''acme'']"
     "log w' = [(ErrorLevel, ''Error: unable to locate config file'')]"
    by (auto simp: i)
  with h1 h2 show ?thesis by blast
qed

subsection \<open>Creating a site and finding it again\<close>

text \<open>
  C2, as stated, fails twice. With the theme in place and a \<^verbatim>\<open>hugo\<close> that exits with
  status 0 without making the site's directory, \<^verbatim>\<open>Create\<close> returns the site and no
  error, the unchecked rename moves nothing, and the \<^verbatim>\<open>Find\<close> that follows returns
  \<^verbatim>\<open>nil\<close>. And with a \<^verbatim>\<open>hugo\<close> that does make the directory, the site found has the
  themes directory \<^verbatim>\<open>/tmp/themes\<close>, which is not under the site store's path
  \<^verbatim>\<open>/tmp/sites\<close>.
\<close>

theorem Create_then_Find_counterexample:
  "Create_then_Find idle_tools siteStore 0 (start themed_fs (acme [])) =
     Returns ((Some \<lparr>Config = 0\<rparr>, None), None)
   \<and> Create_then_Find tools siteStore 0 (start themed_fs (acme [])) =
     Returns ((Some \<lparr>Config = 0\<rparr>, None),
       Some \<lparr>ID = [], ThemeURL = [], SitePath = ''/tmp/sites/acme'',
             ThemesDir = ''/tmp/themes'', ContentDir = ''/tmp/sites/acme/content'',
             LayoutDir = ''/tmp/sites/acme/layout'', PublishDir = ''/tmp/sites/acme/public'',
             BaseURL = ''http://localhost'', LanguageCode = ''en-us'', Title = ''Test Site'',
             Theme = ''ananke''\<rparr>)
   \<and> SiteStore.SitePath siteStore = ''/tmp/sites''"
  by (simp add: run_eval site_eval tool_eval path_eval)

text \<open>
  C2, amended. Let the scaffold run, when it succeeds, leave the site's directory, the
  staged configuration untouched and no directory in the place of \<^verbatim>\<open>config.toml\<close>. Then
  for every configuration on which \<^verbatim>\<open>Create\<close> succeeds, the \<^verbatim>\<open>Find\<close> that follows with
  the same ID returns a site whose base URL, language code, title and theme name are
  those of the input; whose site path is \<^verbatim>\<open>Join(SitePath, ID)\<close> and whose content, layout
  and publish directories are \<^verbatim>\<open>content\<close>, \<^verbatim>\<open>layout\<close> and \<^verbatim>\<open>public\<close> under it; whose
  themes directory is the theme store's path; and whose \<^verbatim>\<open>ID\<close> and \<^verbatim>\<open>ThemeURL\<close> are
  empty, since they are not persisted.
\<close>

theorem Create_then_Find_agrees:
  assumes "heap w config = Some c"
    and "scaffolds X s (ID c)"
    and "Create_then_Find X s config w = Returns ((Some site, err), found)"
  shows "\<exists>c'. found = Some c'
     \<and> BaseURL c' = BaseURL c \<and> LanguageCode c' = LanguageCode c
     \<and> Title c' = Title c \<and> Theme c' = Theme c
     \<and> SitePath c' = Join [SiteStore.SitePath s, ID c]
     \<and> ContentDir c' = Join [SitePath c', ''content'']
     \<and> LayoutDir c' = Join [SitePath c', ''layout'']
     \<and> PublishDir c' = Join [SitePath c', ''public'']
     \<and> ThemesDir c' = StorePath (ThemeStore s)
     \<and> ID c' = [] \<and> ThemeURL c' = []"
proof -
  let ?configPath = "Join [SiteStore.SitePath s, ID c @ ''.toml'']"
  let ?newConfigPath = "Join [SiteStore.SitePath s, ID c, ''config.toml'']"
  let ?sitePath = "Join [SiteStore.SitePath s, ID c]"
  from assms(3) obtain w1 c1 where
    cr: "SiteStore_Create X s config w = Returns ((Some site, err), w1)"
    and c1: "heap w1 config = Some c1"
    and f: "found = found_config (SiteStore_Find s (ID c1) w1)"
    by (auto simp: Create_then_Find_def split: outcome.splits option.splits)
  have "theme_resolves X s c w" using Create_returns_Config(3) [OF assms(1) cr] .
  with Create_heap(1) [OF assms(1) cr] c1 have "c1 = Create_layout s c" by simp
  then have id: "ID c1 = ID c" by simp
  from Create_success_steps [OF assms(1) cr]
  obtain wt :: world and doc fs p fs2 where
    enc: "toml_Encode (Create_layout s c) = Inr doc"
    and wr: "WriteFile (files wt) ?configPath (TomlDocument doc) = Inr fs"
    and run: "X (scaffold_cmd ?configPath (ID c)) fs = (p, fs2)"
    and ok: "Err p = None"
    and fw1: "files w1 = Rename fs2 ?configPath ?newConfigPath"
    by blast
  have
    sc: "fs2 ?sitePath = Some (Directory True)" "fs2 ?configPath = fs ?configPath"
      "fs2 (Dir_of ?configPath) = Some (Directory True)"
      "fs2 (Dir_of ?newConfigPath) = Some (Directory True)"
      "(case fs2 ?newConfigPath of Some (Directory b) \<Rightarrow> False | _ \<Rightarrow> True)"
    using scaffoldsD [OF assms(2) run ok] by simp_all
  from WriteFile_Inr [OF wr] sc(2) have staged: "fs2 ?configPath = Some (Regular True (TomlDocument doc))"
    by simp
  from Rename_moves [OF staged sc(3,4,5)] fw1
  have fw: "files w1 = (fs2(?configPath := None))(?newConfigPath \<mapsto> Regular True (TomlDocument doc))"
    by simp
  have "?sitePath \<noteq> ?newConfigPath" using sc(1,5) by auto
  moreover have "?sitePath \<noteq> ?configPath" using sc(1) staged by auto
  ultimately have dir: "files w1 ?sitePath = Some (Directory True)" using fw sc(1) by simp
  have cfg: "files w1 (Join [?sitePath, ''config.toml'']) = Some (Regular True (TomlDocument doc))"
    using fw by (simp add: Join_Join)
  have "ReadDir (files w1) ?sitePath = None" using dir by (simp add: ReadDir_def)
  moreover have "toml_DecodeFile (files w1) (Join [?sitePath, ''config.toml'']) =
      Inr ((Create_layout s c)\<lparr>ID := [], ThemeURL := [], SitePath := []\<rparr>)"
    using cfg toml_Decode_Encode [OF enc] by (simp add: toml_DecodeFile_def)
  ultimately have "found_config (SiteStore_Find s (ID c) w1) =
      Some ((Create_layout s c)\<lparr>ID := [], ThemeURL := [], SitePath := [], SitePath := ?sitePath\<rparr>)"
    by (rule Find_decoded)
  with f id show ?thesis by simp
qed

text \<open>The site \<^verbatim>\<open>acme\<close> with a \<^verbatim>\<open>hugo\<close> that makes its directory.\<close>

theorem Create_then_Find_agrees_witness:
  "heap (start themed_fs (acme [])) 0 = Some (acme [])
   \<and> scaffolds tools siteStore (ID (acme []))
   \<and> (\<exists>found c'. Create_then_Find tools siteStore 0 (start themed_fs (acme [])) =
                    Returns ((Some \<lparr>Config = 0\<rparr>, None), found)
        \<and> found = Some c'
        \<and> BaseURL c' = ''http://localhost'' \<and> LanguageCode c' = ''en-us''
        \<and> Title c' = ''Test Site'' \<and> Theme c' = ''ananke''
        \<and> SitePath c' = ''/tmp/sites/acme''
        \<and> ContentDir c' = ''/tmp/sites/acme/content''
        \<and> LayoutDir c' = ''/tmp/sites/acme/layout''
        \<and> PublishDir c' = ''/tmp/sites/acme/public''
        \<and> ThemesDir c' = ''/tmp/themes''
        \<and> ID c' = [] \<and> ThemeURL c' = [])"
proof -
  have h1: "heap (start themed_fs (acme [])) 0 = Some (acme [])"
    by (simp add: start_def)
  have h2: "scaffolds tools siteStore (ID (acme []))"
    by (simp add: scaffolds_def site_eval tool_eval path_eval)
  obtain found where e: "Create_then_Find tools siteStore 0 (start themed_fs (acme [])) =
      Returns ((Some \<lparr>Config = 0\<rparr>, None), found)"
    by (simp add: run_eval site_eval tool_eval path_eval)
  have v: "BaseURL (acme []) = ''http://localhost''" "LanguageCode (acme []) = ''en-us''"
    "Title (acme []) = ''Test Site''" "Theme (acme []) = ''ananke''"
    "Join [SiteStore.SitePath siteStore, ID (acme [])] = ''/tmp/sites/acme''"
    "Join [''/tmp/sites/acme'', ''content''] = ''/tmp/sites/acme/content''"
    "Join [''/tmp/sites/acme'', ''layout''] = ''/tmp/sites/acme/layout''"
    "Join [''/tmp/sites/acme'', ''public''] = ''/tmp/sites/acme/public''"
    "StorePath (ThemeStore siteStore) = ''/tmp/themes''"
    by (simp_all add: site_eval path_eval)
  from Create_then_Find_agrees [OF h1 h2 e]
  obtain c' where "found = Some c'"
     "BaseURL c' = ''http://localhost''" "LanguageCode c' = ''en-us''"
     "Title c' = ''Test Site''" "Theme c' = ''ananke''"
     "SitePath c' = ''/tmp/sites/acme''"
     "ContentDir c' = ''/tmp/sites/acme/content''"
     "LayoutDir c' = ''/tmp/sites/acme/layout''"
     "PublishDir c' = ''/tmp/sites/acme/public''"
     "ThemesDir c' = ''/tmp/themes''"
     "ID c' = []" "ThemeURL c' = []"
    by (auto simp: v)
  with h1 h2 e show ?thesis by blast
qed

subsection \<open>Fetching a theme once\<close>

text \<open>
  C7, as stated, fails: with no theme directory, a URL, a clone that succeeds and a
  \<^verbatim>\<open>hugo\<close> that fails, the fetch succeeds and \<^verbatim>\<open>Create\<close> fails.
\<close>

theorem Create_fetch_counterexample:
  "fst (ThemeStore_Fetch broken_hugo themeStore ''ananke'' ananke_url (start bare_fs (acme ananke_url))) =
     (Some Theme_struct, None)
   \<and> answer (SiteStore_Create broken_hugo siteStore 0 (start bare_fs (acme ananke_url))) =
     Some (None, Some (ExitError ''exit status 255''))"
  by (simp add: run_eval site_eval tool_eval path_eval)

text \<open>
  C7, amended. Take any theme name without a local directory that can be listed, and any
  non-empty URL. If the clone fails, \<^verbatim>\<open>Create\<close> fails with the error of the clone.
  \<^verbatim>\<open>Create\<close> succeeds if and only if the clone succeeds and, on the files the clone
  leaves, the steps that follow succeed: encoding the configuration, writing it, and the
  scaffold command. When \<^verbatim>\<open>Create\<close> succeeds, that clone is the one fetch it has run.
  And then, provided a successful clone leaves the theme's directory and the scaffold run
  of this site does not remove it, the theme is found locally afterwards: any later
  \<^verbatim>\<open>Create\<close> with the same theme name, with or without a URL, passes the theme
  resolution at once, leaving the world as it was, goes on to lay out and provision its
  site, and runs no fetch.
\<close>

theorem Create_fetches_once:
  assumes "heap w config = Some c"
    and "files w (Join [StorePath (ThemeStore s), Theme c]) \<noteq> Some (Directory True)"
    and "ThemeURL c \<noteq> []"
  shows "(\<forall>e. Err (fst (X (exec_Command ''git''
                [''clone'', ThemeURL c, Join [StorePath (ThemeStore s), Theme c]]) (files w))) = Some e
          \<longrightarrow> answer (SiteStore_Create X s config w) = Some (None, Some e))
     \<and> ((\<exists>site w1. SiteStore_Create X s config w = Returns ((Some site, None), w1)) \<longleftrightarrow>
          Err (fst (X (exec_Command ''git''
                [''clone'', ThemeURL c, Join [StorePath (ThemeStore s), Theme c]]) (files w))) = None
          \<and> provisions X s c (snd (X (exec_Command ''git''
                [''clone'', ThemeURL c, Join [StorePath (ThemeStore s), Theme c]]) (files w))))
     \<and> (\<forall>site err w1. SiteStore_Create X s config w = Returns ((Some site, err), w1) \<longrightarrow>
          fetches (procs w1) = fetches (procs w) @
               [exec_Command ''git'' [''clone'', ThemeURL c, Join [StorePath (ThemeStore s), Theme c]]]
          \<and> (clone_lands X (Join [StorePath (ThemeStore s), Theme c])
               \<and> scaffold_keeps X s (ID c) (Join [StorePath (ThemeStore s), Theme c]) \<longrightarrow>
              ThemeStore_Find (ThemeStore s) (Theme c) w1 = Some Theme_struct
              \<and> (\<forall>config2 c2 r w2.
                  heap w1 config2 = Some c2 \<and> Theme c2 = Theme c
                  \<and> SiteStore_Create X s config2 w1 = Returns (r, w2) \<longrightarrow>
                  Create_theme X s c2 w1 = (None, w1)
                  \<and> (r, w2) = Create_site X s config2 c2 w1
                  \<and> fetches (procs w2) = fetches (procs w1))))"
proof -
  let ?themePath = "Join [StorePath (ThemeStore s), Theme c]"
  let ?git = "exec_Command ''git'' [''clone'', ThemeURL c, ?themePath]"
  let ?configPath = "Join [SiteStore.SitePath s, ID c @ ''.toml'']"
  obtain pg fsg where g: "X ?git (files w) = (pg, fsg)" by (cases "X ?git (files w)")
  have absent: "ThemeStore_Find (ThemeStore s) (Theme c) w = None"
    using assms(2) by (simp add: ThemeStore_Find_files)
  from Create_theme_fetch [where X = X, OF absent assms(3) g]
  obtain wt where wt: "Create_theme X s c w =
        (case Err pg of None \<Rightarrow> None | Some e \<Rightarrow> Some (None, Some e), wt)"
    "files wt = fsg" "procs wt = procs w @ [?git]"
    by blast
  have a: "\<forall>e. Err (fst (X ?git (files w))) = Some e \<longrightarrow>
      answer (SiteStore_Create X s config w) = Some (None, Some e)"
    using assms(1) g wt(1) by (simp add: SiteStore_Create_def answer_def)
  have i: "(\<exists>site w1. SiteStore_Create X s config w = Returns ((Some site, None), w1)) \<longleftrightarrow>
      Err (fst (X ?git (files w))) = None \<and> provisions X s c (snd (X ?git (files w)))"
  proof (cases "Err pg")
    case None
    with assms(1) wt(1) have "SiteStore_Create X s config w = Returns (Create_site X s config c wt)"
      by (simp add: SiteStore_Create_def)
    then have "(\<exists>site w1. SiteStore_Create X s config w = Returns ((Some site, None), w1)) \<longleftrightarrow>
        (\<exists>site w1. Create_site X s config c wt = ((Some site, None), w1))"
      by simp
    with None g wt(2) show ?thesis by (simp add: Create_site_succeeds_iff)
  next
    case (Some e)
    with assms(1) wt(1) have "SiteStore_Create X s config w = Returns ((None, Some e), wt)"
      by (simp add: SiteStore_Create_def)
    with Some g show ?thesis by simp
  qed
  have b: "fetches (procs w1) = fetches (procs w) @ [?git]
          \<and> (clone_lands X ?themePath \<and> scaffold_keeps X s (ID c) ?themePath \<longrightarrow>
              ThemeStore_Find (ThemeStore s) (Theme c) w1 = Some Theme_struct
              \<and> (\<forall>config2 c2 r w2.
                  heap w1 config2 = Some c2 \<and> Theme c2 = Theme c
                  \<and> SiteStore_Create X s config2 w1 = Returns (r, w2) \<longrightarrow>
                  Create_theme X s c2 w1 = (None, w1)
                  \<and> (r, w2) = Create_site X s config2 c2 w1
                  \<and> fetches (procs w2) = fetches (procs w1)))"
    if cr: "SiteStore_Create X s config w = Returns ((Some site, err), w1)" for site err w1
  proof -
    from Create_success_steps [OF assms(1) cr]
    obtain wt' :: world and doc fs p fs2 where
      st: "Create_theme X s c w = (None, wt')"
      "WriteFile (files wt') ?configPath (TomlDocument doc) = Inr fs"
      "X (scaffold_cmd ?configPath (ID c)) fs = (p, fs2)"
      "files w1 = Rename fs2 ?configPath (Join [SiteStore.SitePath s, ID c, ''config.toml''])"
      "procs w1 = procs wt' @ [scaffold_cmd ?configPath (ID c)]"
      by blast
    from st(1) wt(1) have ok: "Err pg = None" and same: "wt' = wt"
      by (auto split: option.splits)
    have f: "fetches (procs w1) = fetches (procs w) @ [?git]"
      using st(5) same wt(3) by (simp add: fetches_def scaffold_cmd_def exec_Command_def)
    have l: "ThemeStore_Find (ThemeStore s) (Theme c) w1 = Some Theme_struct
              \<and> (\<forall>config2 c2 r w2.
                  heap w1 config2 = Some c2 \<and> Theme c2 = Theme c
                  \<and> SiteStore_Create X s config2 w1 = Returns (r, w2) \<longrightarrow>
                  Create_theme X s c2 w1 = (None, w1)
                  \<and> (r, w2) = Create_site X s config2 c2 w1
                  \<and> fetches (procs w2) = fetches (procs w1))"
      if k: "clone_lands X ?themePath" "scaffold_keeps X s (ID c) ?themePath"
    proof -
      from clone_landsD [OF k(1) g ok] have "fsg ?themePath = Some (Directory True)" .
      with wt(2) same have "files wt' ?themePath = Some (Directory True)" by simp
      from WriteFile_other [OF st(2) this] have "fs ?themePath = Some (Directory True)" .
      moreover from scaffold_keepsD [OF k(2) st(3)] have "fs2 ?themePath = fs ?themePath" .
      ultimately have dir: "files w1 ?themePath = Some (Directory True)"
        using st(4) by (simp add: Rename_Directory)
      then have found: "ThemeStore_Find (ThemeStore s) (Theme c) w1 = Some Theme_struct"
        by (simp add: ThemeStore_Find_files)
      have "Create_theme X s c2 w1 = (None, w1)
                  \<and> (r, w2) = Create_site X s config2 c2 w1
                  \<and> fetches (procs w2) = fetches (procs w1)"
        if c2: "heap w1 config2 = Some c2" "Theme c2 = Theme c"
          "SiteStore_Create X s config2 w1 = Returns (r, w2)" for config2 c2 r w2
      proof -
        from found c2(2) have "ThemeStore_Find (ThemeStore s) (Theme c2) w1 = Some Theme_struct"
          by simp
        then have t: "Create_theme X s c2 w1 = (None, w1)" by (rule Create_theme_found)
        with c2(1,3) have e: "Create_site X s config2 c2 w1 = (r, w2)"
          by (simp add: SiteStore_Create_def)
        from Create_site_fetches [OF e] t e show ?thesis by simp
      qed
      with found show ?thesis by blast
    qed
    from f l show ?thesis by blast
  qed
  from a i b show ?thesis by blast
qed

text \<open>
  The site \<^verbatim>\<open>acme\<close> fetches the theme; the site \<^verbatim>\<open>beta\<close>, which has the same theme and
  a URL of its own, is created after it from the local theme, without a fetch.
\<close>

theorem Create_fetches_once_witness:
  "heap two_sites 0 = Some (acme ananke_url)
   \<and> files two_sites (Join [StorePath (ThemeStore siteStore), Theme (acme ananke_url)])
       \<noteq> Some (Directory True)
   \<and> ThemeURL (acme ananke_url) \<noteq> []
   \<and> clone_lands tools ''/tmp/themes/ananke''
   \<and> scaffold_keeps tools siteStore ''acme'' ''/tmp/themes/ananke''
   \<and> ThemeURL beta \<noteq> [] \<and> Theme beta = Theme (acme ananke_url) \<and> ID beta \<noteq> ID (acme ananke_url)
   \<and> (\<exists>w1 w2.
        SiteStore_Create tools siteStore 0 two_sites = Returns ((Some \<lparr>Config = 0\<rparr>, None), w1)
        \<and> fetches (procs w1) =
            [exec_Command ''git'' [''clone'', ''https://example.org/ananke.git'', ''/tmp/themes/ananke'']]
        \<and> heap w1 1 = Some beta
        \<and> ThemeStore_Find (ThemeStore siteStore) (Theme beta) w1 = Some Theme_struct
        \<and> Create_theme tools siteStore beta w1 = (None, w1)
        \<and> SiteStore_Create tools siteStore 1 w1 = Returns ((Some \<lparr>Config = 1\<rparr>, None), w2)
        \<and> fetches (procs w2) = fetches (procs w1))"
proof -
  have h1: "heap two_sites 0 = Some (acme ananke_url)"
    by (simp add: two_sites_def)
  have h2: "files two_sites (Join [StorePath (ThemeStore siteStore), Theme (acme ananke_url)])
      \<noteq> Some (Directory True)"
    by (simp add: site_eval path_eval)
  have h3: "ThemeURL (acme ananke_url) \<noteq> []"
    by (simp add: site_eval)
  have v: "Join [StorePath (ThemeStore siteStore), Theme (acme ananke_url)] = ''/tmp/themes/ananke''"
    "ID (acme ananke_url) = ''acme''" "ThemeURL (acme ananke_url) = ''https://example.org/ananke.git''"
    "fetches (procs two_sites) = []"
    by (simp_all add: site_eval path_eval fetches_def)
  have u: "ThemeURL beta \<noteq> []" "Theme beta = Theme (acme ananke_url)" "ID beta \<noteq> ID (acme ananke_url)"
    by (simp_all add: site_eval)
  have k1: "clone_lands tools ''/tmp/themes/ananke''"
    by (simp add: clone_lands_def tool_eval)
  have k2: "scaffold_keeps tools siteStore ''acme'' ''/tmp/themes/ananke''"
    by (simp add: scaffold_keeps_def site_eval tool_eval path_eval)
  have "\<exists>w1 w2. SiteStore_Create tools siteStore 0 two_sites =
        Returns ((Some \<lparr>Config = 0\<rparr>, None), w1)
      \<and> SiteStore_Create tools siteStore 1 w1 = Returns ((Some \<lparr>Config = 1\<rparr>, None), w2)"
    by (simp add: run_eval site_eval tool_eval path_eval)
  then obtain w1 w2 where
    c: "SiteStore_Create tools siteStore 0 two_sites = Returns ((Some \<lparr>Config = 0\<rparr>, None), w1)"
    and c2: "SiteStore_Create tools siteStore 1 w1 = Returns ((Some \<lparr>Config = 1\<rparr>, None), w2)"
    by blast
  from Create_heap(1) [OF h1 c] have b: "heap w1 1 = Some beta"
    by (simp add: two_sites_def)
  note t = Create_fetches_once [OF h1 h2 h3, where X = tools, THEN conjunct2, THEN conjunct2,
      rule_format, OF c]
  from t have f1: "fetches (procs w1) =
            [exec_Command ''git'' [''clone'', ''https://example.org/ananke.git'', ''/tmp/themes/ananke'']]"
    by (simp add: v)
  have k1': "clone_lands tools (Join [StorePath (ThemeStore siteStore), Theme (acme ananke_url)])"
    using k1 by (simp add: v)
  have k2': "scaffold_keeps tools siteStore (ID (acme ananke_url))
      (Join [StorePath (ThemeStore siteStore), Theme (acme ananke_url)])"
    using k2 by (simp add: v)
  note t2 = t [THEN conjunct2, rule_format, OF conjI [OF k1' k2']]
  from t2 have
    f2: "ThemeStore_Find (ThemeStore siteStore) (Theme (acme ananke_url)) w1 = Some Theme_struct"
    by (rule conjunct1)
  note t3 = t2 [THEN conjunct2, rule_format, OF conjI [OF b conjI [OF u(2) c2]]]
  from t3 have f4: "Create_theme tools siteStore beta w1 = (None, w1)"
    and f5: "fetches (procs w2) = fetches (procs w1)"
    by simp_all
  from f2 u(2) have f6: "ThemeStore_Find (ThemeStore siteStore) (Theme beta) w1 = Some Theme_struct"
    by simp
  from h1 h2 h3 k1 k2 u c b c2 f1 f4 f5 f6 show ?thesis by blast
qed

end
